theory Spec2Isabelle
  imports Main "HOL-Library.AList"
begin

section \<open>Python values\<close>

text \<open>
  A Python \<^verbatim>\<open>str\<close> is a sequence of Unicode code points, so a string is a list of
  naturals and \<open>length\<close> is Python's \<^verbatim>\<open>len\<close>. The literals of the source are ASCII and
  are written \<open>str ''...''\<close>.

  The manifest, the raw template data and the parsed answer of the assisted step are
  \<^verbatim>\<open>json\<close> values: what \<^verbatim>\<open>json.loads\<close> returns and \<^verbatim>\<open>json.dumps\<close> accepts. A \<^verbatim>\<open>dict\<close> is
  an association list read with \<open>map_of\<close> (a Python dict holds each key once). Numbers
  are integers; floating point is outside the model.
\<close>

type_synonym pystr = "nat list"

definition str :: "string \<Rightarrow> pystr" where
  "str cs = map of_char cs"

datatype json =
    JNull
  | JBool bool
  | JNum int
  | JStr pystr
  | JArr "json list"
  | JObj "(pystr \<times> json) list"

datatype error =
    AttributeError
  | TypeError
  | ValueError
  | IndexError
  | KeyError
  | JSONDecodeError
  | PackageNotFoundError
  | ProviderError
  | LLMError

text \<open>Sequencing of steps that may raise: the first exception ends the computation.\<close>

definition and_then :: "error + 'a \<Rightarrow> ('a \<Rightarrow> error + 'b) \<Rightarrow> error + 'b" where
  "and_then m f = (case m of Inl e \<Rightarrow> Inl e | Inr x \<Rightarrow> f x)"

text \<open>Truth value of an object, as \<^verbatim>\<open>if x\<close> and \<^verbatim>\<open>not x\<close> test it.\<close>

fun truthy :: "json \<Rightarrow> bool" where
  "truthy JNull = False"
| "truthy (JBool b) = b"
| "truthy (JNum n) = (n \<noteq> 0)"
| "truthy (JStr s) = (s \<noteq> [])"
| "truthy (JArr xs) = (xs \<noteq> [])"
| "truthy (JObj kvs) = (kvs \<noteq> [])"

text \<open>\<^verbatim>\<open>d.get(k, default)\<close>: only a dict has the method.\<close>

fun get_or :: "json \<Rightarrow> pystr \<Rightarrow> json \<Rightarrow> error + json" where
  "get_or (JObj kvs) k d = Inr (case map_of kvs k of Some v \<Rightarrow> v | None \<Rightarrow> d)"
| "get_or _ k d = Inl AttributeError"

text \<open>\<^verbatim>\<open>d.get(k)\<close>, whose default is \<^verbatim>\<open>None\<close>.\<close>

definition get :: "json \<Rightarrow> pystr \<Rightarrow> error + json" where
  "get d k = get_or d k JNull"

text \<open>\<^verbatim>\<open>for x in v\<close>: a list yields its items, a string its characters, a dict its keys.\<close>

fun py_iter :: "json \<Rightarrow> error + json list" where
  "py_iter (JArr xs) = Inr xs"
| "py_iter (JStr s) = Inr (map (\<lambda>c. JStr [c]) s)"
| "py_iter (JObj kvs) = Inr (map (\<lambda>kv. JStr (fst kv)) kvs)"
| "py_iter _ = Inl TypeError"

text \<open>Reading a key of a value known to be a dict; used in statements only.\<close>

fun field :: "json \<Rightarrow> pystr \<Rightarrow> json option" where
  "field (JObj kvs) k = map_of kvs k"
| "field _ k = None"

fun is_dict :: "json \<Rightarrow> bool" where
  "is_dict (JObj kvs) = True"
| "is_dict _ = False"


section \<open>Manifest Builder: the deterministic fallback\<close>

text \<open>
  \<^verbatim>\<open>LLMIntegration._create_fallback_manifest(raw_data)\<close> in \<^verbatim>\<open>llm_integration.py\<close>:
  a dict literal whose entries \<^verbatim>\<open>slide_size\<close>, \<^verbatim>\<open>layouts\<close> and \<^verbatim>\<open>assets\<close> are read from
  \<^verbatim>\<open>raw_data\<close> with \<^verbatim>\<open>.get\<close> and whose other entries are constants.
\<close>

definition default_slide_size :: json where
  "default_slide_size =
     JObj [(str ''width_emu'', JNum 9144000), (str ''height_emu'', JNum 6858000)]"

definition fallback_theme :: json where
  "fallback_theme = JObj
     [(str ''palette'', JObj
        [(str ''primary'', JStr (str ''#1f4e79'')),
         (str ''secondary'', JStr (str ''#4472c4'')),
         (str ''accent'', JArr [JStr (str ''#4472c4''), JStr (str ''#ed7d31'')]),
         (str ''text'', JStr (str ''#000000'')),
         (str ''background'', JStr (str ''#ffffff''))]),
      (str ''fonts'', JObj
        [(str ''title_family'', JStr (str ''Calibri'')),
         (str ''body_family'', JStr (str ''Calibri''))])]"

definition fallback_text_defaults :: json where
  "fallback_text_defaults = JObj
     [(str ''title'', JObj
        [(str ''family'', JStr (str ''Calibri'')),
         (str ''size_pt'', JNum 32),
         (str ''bold'', JBool True),
         (str ''color'', JStr (str ''primary''))]),
      (str ''body'', JArr [JObj
        [(str ''level'', JNum 0),
         (str ''family'', JStr (str ''Calibri'')),
         (str ''size_pt'', JNum 18),
         (str ''color'', JStr (str ''text''))]])]"

definition fallback_rules :: json where
  "fallback_rules = JObj
     [(str ''title_color'', JStr (str ''primary'')),
      (str ''body_color'', JStr (str ''text'')),
      (str ''logo_policy'', JStr (str ''Apply logos as found in template''))]"

definition create_fallback_manifest :: "json \<Rightarrow> error + json" where
  "create_fallback_manifest raw_data =
     and_then (get_or raw_data (str ''slide_size'') default_slide_size) (\<lambda>slide_size.
     and_then (get_or raw_data (str ''layouts'') (JArr [])) (\<lambda>layouts.
     and_then (get_or raw_data (str ''images'') (JArr [])) (\<lambda>images.
       Inr (JObj
         [(str ''slide_size'', slide_size),
          (str ''theme'', fallback_theme),
          (str ''layouts'', layouts),
          (str ''text_defaults'', fallback_text_defaults),
          (str ''assets'', images),
          (str ''rules'', fallback_rules)]))))"

text \<open>The six top-level keys of the manifest schema.\<close>

definition required_keys :: "pystr list" where
  "required_keys =
     [str ''slide_size'', str ''theme'', str ''layouts'', str ''text_defaults'',
      str ''assets'', str ''rules'']"

text \<open>
  Navigation into a manifest or into raw template data, for statements: the layouts,
  a placeholder of a layout, and one of its fields.
\<close>

fun at_index :: "json option \<Rightarrow> nat \<Rightarrow> json option" where
  "at_index (Some (JArr xs)) i = (if i < length xs then Some (xs ! i) else None)"
| "at_index _ i = None"

fun at_key :: "json option \<Rightarrow> pystr \<Rightarrow> json option" where
  "at_key (Some v) k = field v k"
| "at_key None k = None"

definition placeholder_field :: "json option \<Rightarrow> nat \<Rightarrow> nat \<Rightarrow> pystr \<Rightarrow> json option" where
  "placeholder_field layouts i j f = at_key (at_index (at_key (at_index layouts i) (str ''placeholders'')) j) f"

text \<open>What \<^verbatim>\<open>raw_data.get(k, [])\<close> reads from a dict.\<close>

definition raw_list :: "(pystr \<times> json) list \<Rightarrow> pystr \<Rightarrow> json" where
  "raw_list raw k = (case map_of raw k of Some v \<Rightarrow> v | None \<Rightarrow> JArr [])"


section \<open>Asset Placer\<close>

text \<open>
  \<^verbatim>\<open>_add_manifest_assets(slide, manifest, slide_idx)\<close> in \<^verbatim>\<open>improved_ppt_processor.py\<close>.
  For each asset the source computes \<^verbatim>\<open>should_apply\<close> and, when it holds, prints
  \<^verbatim>\<open>Would add asset ...\<close>; a \<^verbatim>\<open>TODO\<close> stands where the image would be copied, and the
  parameter \<^verbatim>\<open>slide\<close> is never used. The function returns nothing. The model returns the
  slide after the call, whatever a slide is, and the assets for which the line is
  printed, in order. An exception inside the loop is caught by the handler around the
  whole function, so the loop stops there.
\<close>

definition should_apply :: "json \<Rightarrow> nat \<Rightarrow> error + bool" where
  "should_apply asset slide_idx =
     and_then (get_or asset (str ''apply_on'') (JStr (str ''none''))) (\<lambda>apply_policy.
       Inr (apply_policy = JStr (str ''all'') \<or>
            (apply_policy = JStr (str ''title_only'') \<and> slide_idx = 0)))"

fun assets_loop :: "json list \<Rightarrow> nat \<Rightarrow> json list" where
  "assets_loop [] slide_idx = []"
| "assets_loop (asset # rest) slide_idx =
     (case should_apply asset slide_idx of
        Inl e \<Rightarrow> []
      | Inr b \<Rightarrow> (if b then [asset] else []) @ assets_loop rest slide_idx)"

definition add_manifest_assets :: "'s \<Rightarrow> json \<Rightarrow> nat \<Rightarrow> 's \<times> json list" where
  "add_manifest_assets slide manifest slide_idx =
     (slide,
      (case and_then (get_or manifest (str ''assets'') (JArr [])) py_iter of
         Inl e \<Rightarrow> []
       | Inr assets \<Rightarrow> assets_loop assets slide_idx))"


section \<open>Strings\<close>

text \<open>
  \<^verbatim>\<open>str.strip()\<close> removes the characters for which \<^verbatim>\<open>str.isspace\<close> holds from both ends;
  \<open>is_space\<close> lists them all.
\<close>

definition is_space :: "nat \<Rightarrow> bool" where
  "is_space c =
     ((9 \<le> c \<and> c \<le> 13) \<or> (28 \<le> c \<and> c \<le> 32) \<or> c = 133 \<or> c = 160 \<or> c = 5760
      \<or> (8192 \<le> c \<and> c \<le> 8202) \<or> c = 8232 \<or> c = 8233 \<or> c = 8239 \<or> c = 8287
      \<or> c = 12288)"

definition strip :: "pystr \<Rightarrow> pystr" where
  "strip s = rev (dropWhile is_space (rev (dropWhile is_space s)))"

text \<open>
  \<^verbatim>\<open>str.lower()\<close> on the letters A to Z. The source lowers an archetype only to look for
  the ASCII word \<^verbatim>\<open>content\<close> in it, and no character outside ASCII lowers to a letter of
  that word, so the test is the same as with the full Unicode mapping.
\<close>

definition lower :: "pystr \<Rightarrow> pystr" where
  "lower s = map (\<lambda>c. if 65 \<le> c \<and> c \<le> 90 then c + 32 else c) s"

text \<open>\<^verbatim>\<open>sub in s\<close> for strings.\<close>

fun contains :: "pystr \<Rightarrow> pystr \<Rightarrow> bool" where
  "contains sub [] = (sub = [])"
| "contains sub (c # cs) = (take (length sub) (c # cs) = sub \<or> contains sub cs)"

text \<open>\<^verbatim>\<open>s.find(c)\<close> and \<^verbatim>\<open>s.rfind(c)\<close> for one character: an index, or -1.\<close>

fun py_find :: "pystr \<Rightarrow> nat \<Rightarrow> int" where
  "py_find [] c = - 1"
| "py_find (x # xs) c =
     (if x = c then 0 else (let i = py_find xs c in if i = - 1 then - 1 else i + 1))"

definition py_rfind :: "pystr \<Rightarrow> nat \<Rightarrow> int" where
  "py_rfind s c = (let i = py_find (rev s) c in if i = - 1 then - 1 else int (length s) - 1 - i)"

text \<open>\<^verbatim>\<open>s[a:b]\<close> for indices that are not negative.\<close>

definition slice :: "pystr \<Rightarrow> int \<Rightarrow> int \<Rightarrow> pystr" where
  "slice s a b = drop (nat a) (take (nat b) s)"

text \<open>\<^verbatim>\<open>str(n)\<close> of a natural number, and \<^verbatim>\<open>sep.join(xs)\<close>.\<close>

fun str_of_nat :: "nat \<Rightarrow> pystr" where
  "str_of_nat n = (if n < 10 then [48 + n] else str_of_nat (n div 10) @ [48 + n mod 10])"

fun join :: "pystr \<Rightarrow> pystr list \<Rightarrow> pystr" where
  "join sep [] = []"
| "join sep [x] = x"
| "join sep (x # y # ys) = x @ sep @ join sep (y # ys)"

text \<open>\<^verbatim>\<open>f"{n:06x}"\<close>: lower-case hexadecimal, padded with zeros to six digits.\<close>

definition hex_digit :: "nat \<Rightarrow> nat" where
  "hex_digit d = (if d < 10 then 48 + d else 87 + d)"

fun hex :: "nat \<Rightarrow> pystr" where
  "hex n = (if n < 16 then [hex_digit n] else hex (n div 16) @ [hex_digit (n mod 16)])"

definition hex6 :: "nat \<Rightarrow> pystr" where
  "hex6 n = replicate (6 - length (hex n)) 48 @ hex n"


section \<open>Manifest Builder: the assisted step\<close>

text \<open>
  \<^verbatim>\<open>_parse_manifest_response(response)\<close>: the text between the first \<^verbatim>\<open>{\<close> and the last
  \<^verbatim>\<open>}\<close> of the stripped response is given to \<^verbatim>\<open>json.loads\<close>, and what it returns is
  returned. \<^verbatim>\<open>json.loads\<close> is the parameter \<open>loads\<close> (\<open>None\<close>: it raises). Every
  exception is printed and raised again.
\<close>

definition parse_manifest_response :: "(pystr \<Rightarrow> json option) \<Rightarrow> pystr \<Rightarrow> error + json" where
  "parse_manifest_response loads response0 =
     (let response = strip response0;
          start_idx = py_find response 123;
          end_idx = py_rfind response 125 + 1
      in if start_idx \<noteq> - 1 \<and> end_idx \<noteq> - 1
         then (case loads (slice response start_idx end_idx) of
                 None \<Rightarrow> Inl JSONDecodeError
               | Some parsed \<Rightarrow> Inr parsed)
         else Inl ValueError)"

text \<open>
  \<^verbatim>\<open>RetryableOperation.execute(func)\<close> in \<^verbatim>\<open>retry_handler.py\<close>, with the configuration
  \<^verbatim>\<open>RetryConfigs.LLM_API\<close> (\<^verbatim>\<open>max_retries=2\<close>): \<open>func\<close> is called for the attempts
  \<open>0, 1, 2\<close>; the first result is returned; the exception of the last attempt, or one
  that is not retryable, is raised. \<open>func k\<close> is the outcome of the call at attempt \<open>k\<close>.
  The waiting between attempts has no effect on the result.

  \<^verbatim>\<open>is_retryable_error\<close>: the configuration leaves \<^verbatim>\<open>retryable_errors\<close> at its default,
  a list that holds \<^verbatim>\<open>Exception\<close>, so the \<^verbatim>\<open>isinstance\<close> test holds for every exception.
\<close>

definition max_retries :: nat where
  "max_retries = 2"

definition is_retryable_error :: "error \<Rightarrow> bool" where
  "is_retryable_error e = True"

fun execute_from :: "(nat \<Rightarrow> error + 'a) \<Rightarrow> nat \<Rightarrow> nat \<Rightarrow> error + 'a" where
  "execute_from func 0 attempt = func attempt"
| "execute_from func (Suc remaining) attempt =
     (case func attempt of
        Inr result \<Rightarrow> Inr result
      | Inl e \<Rightarrow> if is_retryable_error e then execute_from func remaining (Suc attempt) else Inl e)"

definition execute :: "(nat \<Rightarrow> error + 'a) \<Rightarrow> error + 'a" where
  "execute func = execute_from func max_retries 0"

text \<open>
  \<^verbatim>\<open>generate_template_manifest(raw_template_data)\<close>. \<open>call k\<close> is what the provider's call
  does at attempt \<open>k\<close>: the text it returns, or the exception it raises (an unsupported
  provider raises at every attempt). The result of \<open>execute\<close> is returned as it is; any
  exception is answered with the fallback manifest. The decorator \<^verbatim>\<open>handle_llm_errors\<close>
  turns an exception that leaves the function into \<^verbatim>\<open>LLMError\<close>.
\<close>

definition make_manifest_call ::
  "(pystr \<Rightarrow> json option) \<Rightarrow> (nat \<Rightarrow> error + pystr) \<Rightarrow> nat \<Rightarrow> error + json" where
  "make_manifest_call loads call k = and_then (call k) (parse_manifest_response loads)"

definition generate_template_manifest ::
  "(pystr \<Rightarrow> json option) \<Rightarrow> (nat \<Rightarrow> error + pystr) \<Rightarrow> json \<Rightarrow> error + json" where
  "generate_template_manifest loads call raw_template_data =
     (case execute (make_manifest_call loads call) of
        Inr manifest \<Rightarrow> Inr manifest
      | Inl e \<Rightarrow>
          (case create_fallback_manifest raw_template_data of
             Inr manifest \<Rightarrow> Inr manifest
           | Inl e' \<Rightarrow> Inl LLMError))"


section \<open>Geometry and Theme Extractor\<close>

text \<open>
  \<^verbatim>\<open>extract_raw_template_data(template_path)\<close> in \<^verbatim>\<open>improved_ppt_processor.py\<close> reads
  the template through the document library. The template is modelled by what the
  library answers, each read that may raise being a value that says so:
  \<^item> the package cannot be opened (\<open>Unreadable\<close>);
  \<^item> a master whose theme or colour scheme cannot be read (\<open>ThemeRaises\<close>), has no theme
    (\<open>NoTheme\<close>), or has one, with a colour scheme (\<open>None\<close>: absent) and a font scheme;
  \<^item> a colour slot \<^verbatim>\<open>color_scheme[j]\<close> that raises when read or formatted, has no
    \<^verbatim>\<open>rgb\<close>, or has the value \<open>rgb\<close>; a slot beyond the end of the list raises;
  \<^item> a placeholder, an image, a layout name, a slide dimension or a shape type that
    cannot be read (\<open>Raises\<close>).
\<close>

datatype 'a access = Raises | Value 'a

datatype color_slot = SlotRaises | SlotNoRgb | SlotRgb nat

datatype font_slot = FontAbsent | FontRaises | FontLatin pystr

datatype font_scheme = FontSchemeRaises | NoFontScheme | FontScheme font_slot font_slot

datatype master = ThemeRaises | NoTheme | Theme "color_slot list option" font_scheme

record placeholder =
  type_str :: pystr
  ph_left :: int
  ph_top :: int
  ph_width :: int
  ph_height :: int

record template_layout =
  tl_name :: "pystr access"
  tl_placeholders :: "placeholder access list"

record image =
  img_left :: int
  img_top :: int
  img_width :: int
  img_height :: int
  blob_len :: nat

datatype shape = ShapeTypeRaises | OtherShape | Picture "image access"

record presentation =
  slide_width :: "int access"
  slide_height :: "int access"
  slide_masters :: "master list"
  slide_layouts :: "template_layout list"
  slides :: "shape list list"

datatype template = Unreadable | Readable presentation

record theme_data =
  colors :: "(pystr \<times> json) list"
  fonts :: "(pystr \<times> json) list"

text \<open>The name given to the colour slot \<open>j\<close>.\<close>

definition color_name :: "nat \<Rightarrow> pystr" where
  "color_name j =
     (if j = 0 then str ''bg1''
      else if j = 1 then str ''text1''
      else if j = 2 then str ''bg2''
      else if j = 3 then str ''text2''
      else if j = 4 then str ''accent1''
      else if j = 5 then str ''accent2''
      else if j = 6 then str ''accent3''
      else if j = 7 then str ''accent4''
      else if j = 8 then str ''accent5''
      else if j = 9 then str ''accent6''
      else str ''theme_color_'' @ str_of_nat j)"

definition slot_at :: "color_slot list \<Rightarrow> nat \<Rightarrow> color_slot" where
  "slot_at color_scheme j = (if j < length color_scheme then color_scheme ! j else SlotRaises)"

text \<open>\<^verbatim>\<open>for j in range(12)\<close>, each slot in a handler of its own.\<close>

fun colors_loop :: "color_slot list \<Rightarrow> nat list \<Rightarrow> (pystr \<times> json) list \<Rightarrow> (pystr \<times> json) list" where
  "colors_loop color_scheme [] cols = cols"
| "colors_loop color_scheme (j # js) cols =
     colors_loop color_scheme js
       (case slot_at color_scheme j of
          SlotRgb rgb \<Rightarrow> AList.update (color_name j) (JStr (35 # hex6 rgb)) cols
        | _ \<Rightarrow> cols)"

definition extract_colors :: "color_slot list option \<Rightarrow> (pystr \<times> json) list \<Rightarrow> (pystr \<times> json) list" where
  "extract_colors scheme cols =
     (case scheme of None \<Rightarrow> cols | Some color_scheme \<Rightarrow> colors_loop color_scheme [0..<12] cols)"

text \<open>The font scheme, in a handler of its own: a failure keeps what was stored before it.\<close>

fun extract_fonts :: "font_scheme \<Rightarrow> (pystr \<times> json) list \<Rightarrow> (pystr \<times> json) list" where
  "extract_fonts FontSchemeRaises fs = fs"
| "extract_fonts NoFontScheme fs = fs"
| "extract_fonts (FontScheme major minor) fs =
     (case major of
        FontRaises \<Rightarrow> fs
      | FontAbsent \<Rightarrow>
          (case minor of FontLatin n \<Rightarrow> AList.update (str ''minor'') (JStr n) fs | _ \<Rightarrow> fs)
      | FontLatin m \<Rightarrow>
          (case minor of
             FontLatin n \<Rightarrow> AList.update (str ''minor'') (JStr n) (AList.update (str ''major'') (JStr m) fs)
           | _ \<Rightarrow> AList.update (str ''major'') (JStr m) fs))"

fun extract_master :: "master \<Rightarrow> theme_data \<Rightarrow> error + theme_data" where
  "extract_master ThemeRaises th = Inl AttributeError"
| "extract_master NoTheme th = Inr th"
| "extract_master (Theme scheme font_scheme) th =
     Inr \<lparr>colors = extract_colors scheme (colors th), fonts = extract_fonts font_scheme (fonts th)\<rparr>"

text \<open>The loop over the masters sits in one handler: a master that raises ends the loop.\<close>

fun extract_theme :: "master list \<Rightarrow> theme_data \<Rightarrow> theme_data" where
  "extract_theme [] th = th"
| "extract_theme (m # ms) th =
     (case extract_master m th of Inl e \<Rightarrow> th | Inr th' \<Rightarrow> extract_theme ms th')"

text \<open>\<^verbatim>\<open>str(placeholder.placeholder_format.type).split('.')[-1]\<close>: what follows the last dot.\<close>

definition enum_name :: "pystr \<Rightarrow> pystr" where
  "enum_name s = rev (takeWhile (\<lambda>c. c \<noteq> 46) (rev s))"

definition ph_data :: "placeholder \<Rightarrow> json" where
  "ph_data ph = JObj
     [(str ''kind'', JStr (enum_name (type_str ph))),
      (str ''left'', JNum (ph_left ph)),
      (str ''top'', JNum (ph_top ph)),
      (str ''width'', JNum (ph_width ph)),
      (str ''height'', JNum (ph_height ph))]"

text \<open>A placeholder that cannot be read is skipped; the others are kept, in order.\<close>

fun extract_placeholders :: "placeholder access list \<Rightarrow> json list" where
  "extract_placeholders [] = []"
| "extract_placeholders (Raises # phs) = extract_placeholders phs"
| "extract_placeholders (Value ph # phs) = ph_data ph # extract_placeholders phs"

text \<open>\<^verbatim>\<open>for i, layout in enumerate(prs.slide_layouts)\<close>; the name is read outside any inner
  handler.\<close>

fun extract_layouts :: "template_layout list \<Rightarrow> nat \<Rightarrow> error + json list" where
  "extract_layouts [] i = Inr []"
| "extract_layouts (l # ls) i =
     (case tl_name l of
        Raises \<Rightarrow> Inl AttributeError
      | Value n \<Rightarrow>
          and_then (extract_layouts ls (Suc i)) (\<lambda>rest.
            Inr (JObj
              [(str ''index'', JNum (int i)),
               (str ''name'', JStr n),
               (str ''placeholders'', JArr (extract_placeholders (tl_placeholders l)))] # rest)))"

definition img_data :: "nat \<Rightarrow> nat \<Rightarrow> image \<Rightarrow> json" where
  "img_data slide_idx shape_idx img = JObj
     [(str ''id'', JStr (str ''img_'' @ str_of_nat slide_idx @ str ''_'' @ str_of_nat shape_idx)),
      (str ''left'', JNum (img_left img)),
      (str ''top'', JNum (img_top img)),
      (str ''width'', JNum (img_width img)),
      (str ''height'', JNum (img_height img)),
      (str ''usage_hint'', JStr (str ''appears on slide '' @ str_of_nat (slide_idx + 1))),
      (str ''size_bytes'', JNum (int (blob_len img)))]"

fun extract_shapes :: "shape list \<Rightarrow> nat \<Rightarrow> nat \<Rightarrow> error + json list" where
  "extract_shapes [] slide_idx shape_idx = Inr []"
| "extract_shapes (ShapeTypeRaises # shs) slide_idx shape_idx = Inl ValueError"
| "extract_shapes (OtherShape # shs) slide_idx shape_idx = extract_shapes shs slide_idx (Suc shape_idx)"
| "extract_shapes (Picture Raises # shs) slide_idx shape_idx = extract_shapes shs slide_idx (Suc shape_idx)"
| "extract_shapes (Picture (Value img) # shs) slide_idx shape_idx =
     and_then (extract_shapes shs slide_idx (Suc shape_idx)) (\<lambda>rest.
       Inr (img_data slide_idx shape_idx img # rest))"

fun extract_images :: "shape list list \<Rightarrow> nat \<Rightarrow> error + json list" where
  "extract_images [] slide_idx = Inr []"
| "extract_images (sl # sls) slide_idx =
     and_then (extract_shapes sl slide_idx 0) (\<lambda>imgs.
     and_then (extract_images sls (Suc slide_idx)) (\<lambda>rest. Inr (imgs @ rest)))"

definition read_int :: "int access \<Rightarrow> error + int" where
  "read_int a = (case a of Raises \<Rightarrow> Inl TypeError | Value n \<Rightarrow> Inr n)"

definition raw_data_of :: "int \<Rightarrow> int \<Rightarrow> theme_data \<Rightarrow> json list \<Rightarrow> json list \<Rightarrow> json" where
  "raw_data_of w h th ls imgs = JObj
     [(str ''slide_size'', JObj [(str ''width_emu'', JNum w), (str ''height_emu'', JNum h)]),
      (str ''theme'', JObj [(str ''colors'', JObj (colors th)), (str ''fonts'', JObj (fonts th))]),
      (str ''layouts'', JArr ls),
      (str ''images'', JArr imgs)]"

text \<open>The body of the outer \<^verbatim>\<open>try\<close>.\<close>

fun extract_body :: "template \<Rightarrow> error + json" where
  "extract_body Unreadable = Inl PackageNotFoundError"
| "extract_body (Readable prs) =
     and_then (read_int (slide_width prs)) (\<lambda>w.
     and_then (read_int (slide_height prs)) (\<lambda>h.
     and_then (extract_layouts (slide_layouts prs) 0) (\<lambda>ls.
     and_then (extract_images (slides prs) 0) (\<lambda>imgs.
       Inr (raw_data_of w h (extract_theme (slide_masters prs) \<lparr>colors = [], fonts = []\<rparr>) ls imgs)))))"

text \<open>What the handler of the outer \<^verbatim>\<open>try\<close> returns.\<close>

definition default_raw_data :: json where
  "default_raw_data = JObj
     [(str ''slide_size'', JObj [(str ''width_emu'', JNum 9144000), (str ''height_emu'', JNum 6858000)]),
      (str ''theme'', JObj [(str ''colors'', JObj []), (str ''fonts'', JObj [])]),
      (str ''layouts'', JArr []),
      (str ''images'', JArr [])]"

definition extract_raw_template_data :: "template \<Rightarrow> error + json" where
  "extract_raw_template_data t =
     (case extract_body t of Inl e \<Rightarrow> Inr default_raw_data | Inr raw_data \<Rightarrow> Inr raw_data)"


section \<open>Layout Resolver\<close>

text \<open>
  A content block is the dict of one slide: \<^verbatim>\<open>title\<close> a string, \<^verbatim>\<open>content\<close> a string or
  a list of strings, \<^verbatim>\<open>layout_hint\<close> a string; a key may be absent (\<open>None\<close>), and the
  source reads each with \<^verbatim>\<open>.get(key, '')\<close>.
\<close>

datatype content = Text pystr | Items "pystr list"

record content_block =
  title :: "pystr option"
  content :: "content option"
  layout_hint :: "pystr option"

definition get_title :: "content_block \<Rightarrow> pystr" where
  "get_title slide_content = (case title slide_content of None \<Rightarrow> [] | Some t \<Rightarrow> t)"

definition get_content :: "content_block \<Rightarrow> content" where
  "get_content slide_content = (case content slide_content of None \<Rightarrow> Text [] | Some c \<Rightarrow> c)"

definition get_layout_hint :: "content_block \<Rightarrow> pystr" where
  "get_layout_hint slide_content = (case layout_hint slide_content of None \<Rightarrow> [] | Some h \<Rightarrow> h)"

text \<open>\<^verbatim>\<open>.strip()\<close> exists on a string only; \<^verbatim>\<open>len\<close> counts characters or items.\<close>

fun content_strip :: "content \<Rightarrow> error + pystr" where
  "content_strip (Text s) = Inr (strip s)"
| "content_strip (Items xs) = Inl AttributeError"

fun content_len :: "content \<Rightarrow> nat" where
  "content_len (Text s) = length s"
| "content_len (Items xs) = length xs"

text \<open>
  \<^verbatim>\<open>for layout_def in manifest_layouts: if test(layout_def): return ...\<close>: the first item
  that passes the test; a test that raises ends the search with the exception.
\<close>

fun find_first :: "(json \<Rightarrow> error + bool) \<Rightarrow> json list \<Rightarrow> error + json option" where
  "find_first test [] = Inr None"
| "find_first test (x # xs) =
     (case test x of
        Inl e \<Rightarrow> Inl e
      | Inr b \<Rightarrow> if b then Inr (Some x) else find_first test xs)"

definition archetype_is :: "pystr list \<Rightarrow> json \<Rightarrow> error + bool" where
  "archetype_is names layout_def =
     and_then (get layout_def (str ''archetype'')) (\<lambda>a. Inr (a \<in> set (map JStr names)))"

definition archetype_has_content :: "json \<Rightarrow> error + bool" where
  "archetype_has_content layout_def =
     and_then (get_or layout_def (str ''archetype'') (JStr [])) (\<lambda>a.
       case a of
         JStr s \<Rightarrow> Inr (contains (str ''content'') (lower s))
       | _ \<Rightarrow> Inl AttributeError)"

text \<open>\<^verbatim>\<open>manifest_layouts[0]\<close>.\<close>

fun first_item :: "json \<Rightarrow> error + json" where
  "first_item (JArr (x # xs)) = Inr x"
| "first_item (JArr []) = Inl IndexError"
| "first_item (JStr (c # cs)) = Inr (JStr [c])"
| "first_item (JStr []) = Inl IndexError"
| "first_item (JObj kvs) = Inl KeyError"
| "first_item _ = Inl TypeError"

text \<open>The three searches made for a block that has content, in their order.\<close>

definition content_tiers :: "json \<Rightarrow> nat \<Rightarrow> error + json option" where
  "content_tiers manifest_layouts content_length =
     and_then (py_iter manifest_layouts) (\<lambda>layout_defs.
     and_then (find_first (archetype_is [str ''title_content'']) layout_defs) (\<lambda>r1.
       case r1 of
         Some layout_def \<Rightarrow> Inr (Some layout_def)
       | None \<Rightarrow>
           and_then (if content_length > 200
                     then find_first (archetype_is [str ''two_content'']) layout_defs
                     else Inr None) (\<lambda>r2.
             case r2 of
               Some layout_def \<Rightarrow> Inr (Some layout_def)
             | None \<Rightarrow> find_first archetype_has_content layout_defs)))"

definition section_tier :: "json \<Rightarrow> error + json option" where
  "section_tier manifest_layouts =
     and_then (py_iter manifest_layouts) (\<lambda>layout_defs.
       find_first (archetype_is [str ''section_header'', str ''title_only'']) layout_defs)"

text \<open>
  The entry of \<^verbatim>\<open>manifest['layouts']\<close> that \<^verbatim>\<open>_resolve_layout_from_manifest\<close> settles on:
  the \<^verbatim>\<open>layout_def\<close> whose name it then looks up in the presentation. \<open>Inr None\<close> is the
  \<^verbatim>\<open>return None\<close> of a manifest without layouts. The source also computes \<^verbatim>\<open>has_title\<close>,
  which it never uses.
\<close>

definition select_layout_def :: "content_block \<Rightarrow> json \<Rightarrow> error + json option" where
  "select_layout_def slide_content manifest =
     and_then (get_or manifest (str ''layouts'') (JArr [])) (\<lambda>manifest_layouts.
       if \<not> truthy manifest_layouts then Inr None
       else
         and_then (content_strip (get_content slide_content)) (\<lambda>stripped.
           let has_content = (stripped \<noteq> []);
               content_length = content_len (get_content slide_content);
               content_type = get_layout_hint slide_content
           in
             and_then (if has_content \<and> content_length > 0
                       then content_tiers manifest_layouts content_length
                       else Inr None) (\<lambda>r1.
               case r1 of
                 Some layout_def \<Rightarrow> Inr (Some layout_def)
               | None \<Rightarrow>
                   and_then (if content_type = str ''section'' \<or> \<not> has_content
                             then section_tier manifest_layouts
                             else Inr None) (\<lambda>r2.
                     case r2 of
                       Some layout_def \<Rightarrow> Inr (Some layout_def)
                     | None \<Rightarrow>
                         and_then (first_item manifest_layouts) (\<lambda>layout_def.
                           Inr (Some layout_def))))))"

text \<open>
  The layouts of the presentation under construction, \<^verbatim>\<open>prs.slide_layouts\<close>: each has a
  name; \<open>sl_no\<close> tells apart two layouts of the same name.
\<close>

record slide_layout =
  sl_name :: pystr
  sl_no :: nat

text \<open>\<^verbatim>\<open>prs.slide_layouts[1] if len(prs.slide_layouts) > 1 else prs.slide_layouts[0]\<close>.\<close>

definition default_layout :: "slide_layout list \<Rightarrow> error + slide_layout" where
  "default_layout ls =
     (if length ls > 1 then Inr (ls ! 1)
      else (case ls of [] \<Rightarrow> Inl IndexError | l # rest \<Rightarrow> Inr l))"

text \<open>\<^verbatim>\<open>_find_layout_by_name(layout_name, prs)\<close>; every exception gives \<^verbatim>\<open>None\<close>.\<close>

definition find_layout_by_name :: "json \<Rightarrow> slide_layout list \<Rightarrow> slide_layout option" where
  "find_layout_by_name layout_name ls =
     (case find (\<lambda>l. JStr (sl_name l) = layout_name) ls of
        Some l \<Rightarrow> Some l
      | None \<Rightarrow> (case default_layout ls of Inl e \<Rightarrow> None | Inr l \<Rightarrow> Some l))"

text \<open>
  \<^verbatim>\<open>_resolve_layout_from_manifest(slide_content, manifest, slide_idx, prs)\<close>: a layout of
  the presentation, or \<^verbatim>\<open>None\<close>; every exception gives \<^verbatim>\<open>None\<close>.
\<close>

definition resolve_layout_from_manifest ::
  "content_block \<Rightarrow> json \<Rightarrow> nat \<Rightarrow> slide_layout list \<Rightarrow> slide_layout option" where
  "resolve_layout_from_manifest slide_content manifest slide_idx prs =
     (case and_then (select_layout_def slide_content manifest) (\<lambda>r.
             case r of
               None \<Rightarrow> Inr None
             | Some layout_def \<Rightarrow>
                 and_then (get layout_def (str ''name'')) (\<lambda>n. Inr (find_layout_by_name n prs)))
      of Inl e \<Rightarrow> None | Inr choice \<Rightarrow> choice)"

text \<open>
  The layout with which \<^verbatim>\<open>_create_slide_with_manifest\<close> adds the slide: the resolver's
  choice, or the default layout when there is none; the handler of the function uses
  the default layout again, and an exception there leaves the function.
\<close>

definition create_slide_layout ::
  "content_block \<Rightarrow> json \<Rightarrow> nat \<Rightarrow> slide_layout list \<Rightarrow> error + slide_layout" where
  "create_slide_layout slide_content manifest slide_idx prs =
     (case (case resolve_layout_from_manifest slide_content manifest slide_idx prs of
              Some layout_choice \<Rightarrow> Inr layout_choice
            | None \<Rightarrow> default_layout prs)
      of Inr layout_choice \<Rightarrow> Inr layout_choice
       | Inl e \<Rightarrow> default_layout prs)"


section \<open>Styling Applier\<close>

text \<open>
  The body text of \<^verbatim>\<open>_apply_manifest_styling(slide, slide_content, manifest)\<close>: the value
  of \<^verbatim>\<open>body_text\<close>, or \<open>None\<close> on the branch that applies no body content. A list is
  rendered one item per line, each after a bullet (U+2022) and a space.
\<close>

text \<open>\<^verbatim>\<open>f"\<bullet> {item}"\<close>, the bullet being the character U+2022.\<close>

definition bullet_line :: "pystr \<Rightarrow> pystr" where
  "bullet_line item = [8226, 32] @ item"

fun content_truthy :: "content \<Rightarrow> bool" where
  "content_truthy (Text s) = (s \<noteq> [])"
| "content_truthy (Items xs) = (xs \<noteq> [])"

definition body_text :: "content_block \<Rightarrow> pystr option" where
  "body_text slide_content =
     (let title_text = get_title slide_content;
          body_content0 = get_content slide_content;
          body_content =
            (if \<not> content_truthy body_content0
             then Text (if title_text \<noteq> [] then str ''Key points about '' @ title_text
                        else str ''Content will be added here'')
             else body_content0)
      in if content_truthy body_content
         then Some (case body_content of
                      Items xs \<Rightarrow> join [10] (map bullet_line xs)
                    | Text s \<Rightarrow> s)
         else None)"

text \<open>
  The slide as \<^verbatim>\<open>_apply_manifest_styling\<close> finds it. A shape has its text; writing the
  text may raise in the document library; the shape has a text frame or not. The slide
  has a title shape or none (\<^verbatim>\<open>slide.shapes.title\<close>), and the search for a body shape, its
  four methods taken together, raises, ends without a shape, or ends on a shape.
\<close>

datatype 'a search = SearchRaises | NotFound | Found 'a

record text_shape =
  shape_text :: pystr
  write_raises :: bool
  has_text_frame :: bool

record slide =
  title_shape :: "text_shape option"
  body_search :: "text_shape search"

text \<open>
  The second half of the function: the body text is computed, the body shape is
  searched, and the text is written into a shape with a text frame. What follows the
  write (the rules of the body font) does not touch the text.
\<close>

definition write_body :: "slide \<Rightarrow> content_block \<Rightarrow> slide" where
  "write_body sl slide_content =
     (case body_text slide_content of
        None \<Rightarrow> sl
      | Some t \<Rightarrow>
          (case body_search sl of
             Found sh \<Rightarrow>
               if has_text_frame sh \<and> \<not> write_raises sh
               then sl\<lparr>body_search := Found (sh\<lparr>shape_text := t\<rparr>)\<rparr>
               else sl
           | _ \<Rightarrow> sl))"

text \<open>
  \<^verbatim>\<open>_apply_manifest_styling(slide, slide_content, manifest)\<close>, as to the texts of the
  slide (the fonts are the matter of the next section, whose function raises nothing).
  The whole body is in one handler that only prints: an exception ends the function and
  the slide stays as the writes before it left it. In order: \<^verbatim>\<open>manifest.get('text_defaults', {})\<close>,
  \<^verbatim>\<open>manifest.get('theme', {}).get('palette', {})\<close>, the write of the title, for a title
  shape with a text frame \<^verbatim>\<open>text_defaults.get('title', {})\<close>, then the body.
\<close>

definition apply_manifest_styling :: "slide \<Rightarrow> content_block \<Rightarrow> json \<Rightarrow> slide" where
  "apply_manifest_styling sl slide_content manifest =
     (case and_then (get_or manifest (str ''text_defaults'') (JObj [])) (\<lambda>text_defaults.
           and_then (get_or manifest (str ''theme'') (JObj [])) (\<lambda>theme.
           and_then (get_or theme (str ''palette'') (JObj [])) (\<lambda>theme_palette.
             Inr text_defaults)))
      of Inl e \<Rightarrow> sl
       | Inr text_defaults \<Rightarrow>
           (case title_shape sl of
              None \<Rightarrow> write_body sl slide_content
            | Some sh \<Rightarrow>
                if write_raises sh then sl
                else
                  (let sl1 = sl\<lparr>title_shape := Some (sh\<lparr>shape_text := get_title slide_content\<rparr>)\<rparr>
                   in if has_text_frame sh
                      then (case get_or text_defaults (str ''title'') (JObj []) of
                              Inl e \<Rightarrow> sl1
                            | Inr title_rules \<Rightarrow> write_body sl1 slide_content)
                      else write_body sl1 slide_content)))"


section \<open>Text formatting\<close>

text \<open>
  \<^verbatim>\<open>_apply_text_formatting(text_frame, format_rules, palette)\<close>. A text frame is its list
  of paragraphs, a paragraph has an outline level and its list of runs, a run has its
  text and its font. The font is an object of the document library, of any type \<open>'f\<close>;
  what the library and the interpreter do is given by the parameter \<open>lib\<close>:
  \<^item> \<open>set_name v\<close>, \<open>set_size v\<close>, \<open>set_bold\<close>: the assignments \<^verbatim>\<open>font.name = v\<close>,
    \<^verbatim>\<open>font.size = Pt(v)\<close>, \<^verbatim>\<open>font.bold = True\<close>, each giving the new font or raising;
  \<^item> \<open>int16 s\<close>: \<^verbatim>\<open>int(s, 16)\<close>;
  \<^item> \<open>set_rgb r g b\<close>: \<^verbatim>\<open>font.color.rgb = RGBColor(r, g, b)\<close>.
  The function changes the text frame in place and returns nothing; the model returns
  the text frame after the call.
\<close>

record 'f run =
  run_text :: pystr
  font :: 'f

record 'f para =
  level :: nat
  runs :: "'f run list"

type_synonym 'f text_frame = "'f para list"

record 'f library =
  set_name :: "json \<Rightarrow> 'f \<Rightarrow> error + 'f"
  set_size :: "json \<Rightarrow> 'f \<Rightarrow> error + 'f"
  set_bold :: "'f \<Rightarrow> error + 'f"
  int16 :: "pystr \<Rightarrow> error + int"
  set_rgb :: "int \<Rightarrow> int \<Rightarrow> int \<Rightarrow> 'f \<Rightarrow> error + 'f"

text \<open>\<^verbatim>\<open>palette.get(color_key)\<close>: a list or a dict is not hashable and cannot be a key.\<close>

fun palette_get :: "json \<Rightarrow> json \<Rightarrow> error + json" where
  "palette_get (JObj kvs) (JStr k) = Inr (case map_of kvs k of Some v \<Rightarrow> v | None \<Rightarrow> JNull)"
| "palette_get (JObj kvs) (JArr xs) = Inl TypeError"
| "palette_get (JObj kvs) (JObj ys) = Inl TypeError"
| "palette_get (JObj kvs) _ = Inr JNull"
| "palette_get _ _ = Inl AttributeError"

text \<open>\<^verbatim>\<open>palette[color_key].replace('#', '')\<close>.\<close>

fun remove_hash :: "json \<Rightarrow> error + pystr" where
  "remove_hash (JStr s) = Inr (filter (\<lambda>c. c \<noteq> 35) s)"
| "remove_hash _ = Inl AttributeError"

text \<open>The inner \<^verbatim>\<open>try\<close> around the colour: whatever raises there is passed over.\<close>

definition set_color :: "'f library \<Rightarrow> pystr \<Rightarrow> 'f \<Rightarrow> 'f" where
  "set_color lib color_hex f =
     (case and_then (int16 lib (slice color_hex 0 2)) (\<lambda>r.
           and_then (int16 lib (slice color_hex 2 4)) (\<lambda>g.
           and_then (int16 lib (slice color_hex 4 6)) (\<lambda>b.
             set_rgb lib r g b f)))
      of Inl e \<Rightarrow> f | Inr f' \<Rightarrow> f')"

text \<open>
  The assignments to the font of the run, in their order. An exception ends them; the
  handler of the function only prints, so the font stays as the assignments made before
  the exception left it.
\<close>

definition apply_color :: "'f library \<Rightarrow> json \<Rightarrow> json \<Rightarrow> 'f \<Rightarrow> 'f" where
  "apply_color lib format_rules palette f =
     (case get format_rules (str ''color'') of
        Inl e \<Rightarrow> f
      | Inr color_key \<Rightarrow>
          if \<not> truthy color_key then f
          else
            (case palette_get palette color_key of
               Inl e \<Rightarrow> f
             | Inr v \<Rightarrow>
                 if \<not> truthy v then f
                 else
                   (case remove_hash v of
                      Inl e \<Rightarrow> f
                    | Inr color_hex \<Rightarrow>
                        if length color_hex = 6 then set_color lib color_hex f else f)))"

definition apply_bold :: "'f library \<Rightarrow> json \<Rightarrow> json \<Rightarrow> 'f \<Rightarrow> 'f" where
  "apply_bold lib format_rules palette f =
     (case get format_rules (str ''bold'') of
        Inl e \<Rightarrow> f
      | Inr b \<Rightarrow>
          if \<not> truthy b then apply_color lib format_rules palette f
          else
            (case set_bold lib f of
               Inl e \<Rightarrow> f
             | Inr f' \<Rightarrow> apply_color lib format_rules palette f'))"

definition apply_size :: "'f library \<Rightarrow> json \<Rightarrow> json \<Rightarrow> 'f \<Rightarrow> 'f" where
  "apply_size lib format_rules palette f =
     (case get format_rules (str ''size_pt'') of
        Inl e \<Rightarrow> f
      | Inr size_pt \<Rightarrow>
          if \<not> truthy size_pt then apply_bold lib format_rules palette f
          else
            (case set_size lib size_pt f of
               Inl e \<Rightarrow> f
             | Inr f' \<Rightarrow> apply_bold lib format_rules palette f'))"

definition apply_font :: "'f library \<Rightarrow> json \<Rightarrow> json \<Rightarrow> 'f \<Rightarrow> 'f" where
  "apply_font lib format_rules palette f =
     (case get format_rules (str ''family'') of
        Inl e \<Rightarrow> f
      | Inr family \<Rightarrow>
          if \<not> truthy family then apply_size lib format_rules palette f
          else
            (case set_name lib family f of
               Inl e \<Rightarrow> f
             | Inr f' \<Rightarrow> apply_size lib format_rules palette f'))"

definition apply_text_formatting ::
  "'f library \<Rightarrow> 'f text_frame \<Rightarrow> json \<Rightarrow> json \<Rightarrow> 'f text_frame" where
  "apply_text_formatting lib text_frame format_rules palette =
     (case text_frame of
        [] \<Rightarrow> text_frame
      | p # ps \<Rightarrow>
          (case runs p of
             [] \<Rightarrow> text_frame
           | run # rest \<Rightarrow>
               p\<lparr>runs := run\<lparr>font := apply_font lib format_rules palette (font run)\<rparr> # rest\<rparr> # ps))"


section \<open>Notions used in the statements\<close>

text \<open>What a colour slot contributes to \<^verbatim>\<open>theme.colors\<close>, if anything.\<close>

fun slot_value :: "color_slot \<Rightarrow> json option" where
  "slot_value (SlotRgb rgb) = Some (JStr (35 # hex6 rgb))"
| "slot_value _ = None"

text \<open>
  A layout of the manifest has the archetype \<open>a\<close>; its archetype, lowered, holds the
  word \<^verbatim>\<open>content\<close> (the test of the resolver's third search); it is content-capable as
  the specification has it: \<^verbatim>\<open>title_content\<close>, \<^verbatim>\<open>two_content\<close>, or any archetype that
  holds \<^verbatim>\<open>content\<close>.
\<close>

definition is_archetype :: "pystr \<Rightarrow> json \<Rightarrow> bool" where
  "is_archetype a layout_def = (field layout_def (str ''archetype'') = Some (JStr a))"

definition has_content_word :: "json \<Rightarrow> bool" where
  "has_content_word layout_def =
     (case field layout_def (str ''archetype'') of
        Some (JStr a) \<Rightarrow> contains (str ''content'') (lower a)
      | _ \<Rightarrow> False)"

definition content_capable :: "json \<Rightarrow> bool" where
  "content_capable layout_def =
     (case field layout_def (str ''archetype'') of
        Some (JStr a) \<Rightarrow> a = str ''title_content'' \<or> a = str ''two_content'' \<or> contains (str ''content'') a
      | _ \<Rightarrow> False)"

text \<open>A layout of the manifest is a dict whose archetype, when present, is a string.\<close>

fun layout_ok :: "json \<Rightarrow> bool" where
  "layout_ok (JObj kvs) =
     (case map_of kvs (str ''archetype'') of None \<Rightarrow> True | Some (JStr a) \<Rightarrow> True | Some _ \<Rightarrow> False)"
| "layout_ok _ = False"

text \<open>
  The preference among the layouts for a block with content of \<open>n\<close> characters: the
  first \<^verbatim>\<open>title_content\<close> layout; failing that, for \<open>n > 200\<close>, the first \<^verbatim>\<open>two_content\<close>
  layout; failing that, the first layout whose archetype holds \<^verbatim>\<open>content\<close>.
\<close>

definition content_choice :: "nat \<Rightarrow> json list \<Rightarrow> json option" where
  "content_choice n lds =
     (case find (is_archetype (str ''title_content'')) lds of
        Some ld \<Rightarrow> Some ld
      | None \<Rightarrow>
          (case (if n > 200 then find (is_archetype (str ''two_content'')) lds else None) of
             Some ld \<Rightarrow> Some ld
           | None \<Rightarrow> find has_content_word lds))"

text \<open>\<^verbatim>\<open>layout_def.get('name')\<close> of a dict.\<close>

definition name_of :: "json \<Rightarrow> json" where
  "name_of layout_def = (case field layout_def (str ''name'') of None \<Rightarrow> JNull | Some n \<Rightarrow> n)"

text \<open>The test of the resolver's search for a block without content.\<close>

definition is_section_or_title :: "json \<Rightarrow> bool" where
  "is_section_or_title layout_def =
     (is_archetype (str ''section_header'') layout_def \<or> is_archetype (str ''title_only'') layout_def)"

text \<open>
  The styling gets as far as the body: the manifest is a dict, its \<^verbatim>\<open>theme\<close> is a dict or
  absent, the write of the title does not raise, and for a title shape with a text frame
  \<^verbatim>\<open>text_defaults\<close> is a dict or absent.
\<close>

fun dict_or_absent :: "json option \<Rightarrow> bool" where
  "dict_or_absent None = True"
| "dict_or_absent (Some v) = is_dict v"

definition reaches_body :: "slide \<Rightarrow> json \<Rightarrow> bool" where
  "reaches_body sl manifest =
     (is_dict manifest \<and> dict_or_absent (field manifest (str ''theme''))
      \<and> (case title_shape sl of
            None \<Rightarrow> True
          | Some sh \<Rightarrow>
              \<not> write_raises sh
              \<and> (if has_text_frame sh then dict_or_absent (field manifest (str ''text_defaults'')) else True)))"

text \<open>A text is blank when stripping leaves nothing; the phrase put in place of empty content.\<close>

definition blank :: "pystr \<Rightarrow> bool" where
  "blank s = (strip s = [])"

definition synthesized :: "pystr \<Rightarrow> pystr" where
  "synthesized t = (if t \<noteq> [] then str ''Key points about '' @ t else str ''Content will be added here'')"

section \<open>Reading results, and sample data\<close>

text \<open>The value a call returned, if it returned; and whether it returned.\<close>

fun the_result :: "error + 'a \<Rightarrow> 'a option" where
  "the_result (Inr x) = Some x"
| "the_result (Inl e) = None"

fun is_result :: "error + 'a \<Rightarrow> bool" where
  "is_result (Inr x) = True"
| "is_result (Inl e) = False"

text \<open>Raw template data of a template with one layout, which has one placeholder.\<close>

definition sample_raw :: json where
  "sample_raw = JObj
     [(str ''slide_size'', JObj [(str ''width_emu'', JNum 12192000), (str ''height_emu'', JNum 6858000)]),
      (str ''theme'', JObj [(str ''colors'', JObj []), (str ''fonts'', JObj [])]),
      (str ''layouts'', JArr
        [JObj [(str ''index'', JNum 0), (str ''name'', JStr (str ''Title Slide'')),
               (str ''placeholders'', JArr
                 [JObj [(str ''kind'', JStr (str ''TITLE (1)'')), (str ''left'', JNum 838200),
                        (str ''top'', JNum 365125), (str ''width'', JNum 10515600),
                        (str ''height'', JNum 1325563)]])]]),
      (str ''images'', JArr [])]"

text \<open>
  An answer of the assisted step: some words, then a JSON object with five of the six
  required keys, \<^verbatim>\<open>rules\<close> missing. \<open>sample_loads\<close> is \<^verbatim>\<open>json.loads\<close> on that object.
\<close>

definition sample_candidate :: json where
  "sample_candidate = JObj
     [(str ''slide_size'', JObj []),
      (str ''theme'', JObj []),
      (str ''layouts'', JArr []),
      (str ''text_defaults'', JObj []),
      (str ''assets'', JArr [])]"

definition sample_response :: pystr where
  \<open>sample_response = str ''Manifest: {"slide_size": {}, "theme": {}, "layouts": [], "text_defaults": {}, "assets": []} ''\<close>

definition sample_loads :: "pystr \<Rightarrow> json option" where
  \<open>sample_loads s =
     (if s = str ''{"slide_size": {}, "theme": {}, "layouts": [], "text_defaults": {}, "assets": []}''
      then Some sample_candidate else None)\<close>

text \<open>An asset with an id and a policy.\<close>

definition logo :: "string \<Rightarrow> string \<Rightarrow> json" where
  "logo i p = JObj [(str ''id'', JStr (str i)), (str ''apply_on'', JStr (str p))]"

text \<open>A template whose master has the twelve colours of a colour scheme.\<close>

definition office_scheme :: "color_slot list" where
  "office_scheme =
     [SlotRgb 0, SlotRgb 16777215, SlotRgb 4478058, SlotRgb 15197926, SlotRgb 4485828,
      SlotRgb 15564081, SlotRgb 10855845, SlotRgb 16760832, SlotRgb 6003669, SlotRgb 7384391,
      SlotRgb 353217, SlotRgb 9785202]"

definition sample_template :: template where
  "sample_template = Readable
     \<lparr>slide_width = Value 12192000, slide_height = Value 6858000,
      slide_masters = [Theme (Some office_scheme) NoFontScheme],
      slide_layouts = [], slides = []\<rparr>"

text \<open>
  A manifest with a section-header layout before a title-and-content layout, the layouts
  of a presentation, and four content blocks: one with text and the hint \<^verbatim>\<open>section\<close>,
  one whose content is a single space, one whose content is a list, one with empty content.
\<close>

definition sample_layout :: "string \<Rightarrow> string \<Rightarrow> json" where
  "sample_layout n a = JObj [(str ''name'', JStr (str n)), (str ''archetype'', JStr (str a))]"

definition sample_manifest :: json where
  "sample_manifest = JObj [(str ''layouts'',
     JArr [sample_layout ''Section'' ''section_header'', sample_layout ''Body'' ''title_content''])]"

definition sample_prs :: "slide_layout list" where
  "sample_prs =
     [\<lparr>sl_name = str ''Title'', sl_no = 0\<rparr>, \<lparr>sl_name = str ''Body'', sl_no = 1\<rparr>,
      \<lparr>sl_name = str ''Section'', sl_no = 2\<rparr>]"

text \<open>A presentation that has no layout named \<^verbatim>\<open>Body\<close>.\<close>

definition short_prs :: "slide_layout list" where
  "short_prs = [\<lparr>sl_name = str ''Title'', sl_no = 0\<rparr>, \<lparr>sl_name = str ''Section'', sl_no = 1\<rparr>]"

text \<open>
  A manifest with the theme and the text defaults of the fallback, one whose theme is
  \<^verbatim>\<open>null\<close>, and a slide with an empty title shape and an empty body shape.
\<close>

definition style_manifest :: json where
  "style_manifest = JObj [(str ''theme'', fallback_theme), (str ''text_defaults'', fallback_text_defaults)]"

definition null_theme_manifest :: json where
  "null_theme_manifest = JObj [(str ''theme'', JNull), (str ''text_defaults'', fallback_text_defaults)]"

definition empty_shape :: text_shape where
  "empty_shape = \<lparr>shape_text = [], write_raises = False, has_text_frame = True\<rparr>"

definition sample_slide :: slide where
  "sample_slide = \<lparr>title_shape = Some empty_shape, body_search = Found empty_shape\<rparr>"

definition text_block :: content_block where
  "text_block = \<lparr>title = Some (str ''Intro''), content = Some (Text (str ''Real content'')),
                  layout_hint = Some (str ''section'')\<rparr>"

definition blank_block :: content_block where
  "blank_block = \<lparr>title = Some (str ''Intro''), content = Some (Text (str '' '')),
                   layout_hint = None\<rparr>"

definition list_block :: content_block where
  "list_block = \<lparr>title = Some (str ''Agenda''), content = Some (Items [str ''First'', str ''Second'']),
                  layout_hint = None\<rparr>"

definition empty_block :: content_block where
  "empty_block = \<lparr>title = Some (str ''Intro''), content = Some (Text []), layout_hint = None\<rparr>"

text \<open>
  A document library for the text formatting: a font records what was assigned to it,
  a size in EMU (12700 per point); \<^verbatim>\<open>int(s, 16)\<close> is given for two hexadecimal digits.
\<close>

record simple_font =
  f_name :: "json option"
  f_size :: "int option"
  f_bold :: bool
  f_rgb :: "(int \<times> int \<times> int) option"

definition hex_value :: "nat \<Rightarrow> int option" where
  "hex_value c =
     (if 48 \<le> c \<and> c \<le> 57 then Some (int c - 48)
      else if 97 \<le> c \<and> c \<le> 102 then Some (int c - 87)
      else if 65 \<le> c \<and> c \<le> 70 then Some (int c - 55)
      else None)"

definition simple_int16 :: "pystr \<Rightarrow> error + int" where
  "simple_int16 s =
     (case s of
        [a, b] \<Rightarrow>
          (case (hex_value a, hex_value b) of
             (Some x, Some y) \<Rightarrow> Inr (16 * x + y)
           | _ \<Rightarrow> Inl ValueError)
      | _ \<Rightarrow> Inl ValueError)"

definition simple_library :: "simple_font library" where
  "simple_library =
     \<lparr>set_name = (\<lambda>v f. case v of JStr s \<Rightarrow> Inr (f\<lparr>f_name := Some v\<rparr>) | _ \<Rightarrow> Inl TypeError),
      set_size = (\<lambda>v f. case v of JNum n \<Rightarrow> Inr (f\<lparr>f_size := Some (n * 12700)\<rparr>) | _ \<Rightarrow> Inl TypeError),
      set_bold = (\<lambda>f. Inr (f\<lparr>f_bold := True\<rparr>)),
      int16 = simple_int16,
      set_rgb = (\<lambda>r g b f. Inr (f\<lparr>f_rgb := Some (r, g, b)\<rparr>))\<rparr>"

definition plain_font :: simple_font where
  "plain_font = \<lparr>f_name = None, f_size = None, f_bold = False, f_rgb = None\<rparr>"

definition sample_frame :: "simple_font text_frame" where
  "sample_frame =
     [\<lparr>level = 0, runs = [\<lparr>run_text = str ''Quarterly '', font = plain_font\<rparr>,
                          \<lparr>run_text = str ''review'', font = plain_font\<rparr>]\<rparr>,
      \<lparr>level = 1, runs = [\<lparr>run_text = str ''Second paragraph'', font = plain_font\<rparr>]\<rparr>]"


section \<open>Basic facts\<close>

lemma str_eq_iff [simp]: "str a = str b \<longleftrightarrow> a = b"
  by (simp add: str_def inj_map_eq_map inj_of_char)

lemma str_eq_Nil [simp]: "str a = [] \<longleftrightarrow> a = []" "[] = str a \<longleftrightarrow> a = []"
  by (auto simp add: str_def)


section \<open>Manifest Builder\<close>

lemma create_fallback_manifest_dict:
  "create_fallback_manifest (JObj raw) = Inr (JObj
     [(str ''slide_size'', (case map_of raw (str ''slide_size'') of Some v \<Rightarrow> v | None \<Rightarrow> default_slide_size)),
      (str ''theme'', fallback_theme),
      (str ''layouts'', raw_list raw (str ''layouts'')),
      (str ''text_defaults'', fallback_text_defaults),
      (str ''assets'', raw_list raw (str ''images'')),
      (str ''rules'', fallback_rules)])"
  by (simp add: create_fallback_manifest_def and_then_def raw_list_def)

text \<open>
  C3. On every raw template data (a dict) the fallback constructor returns, without
  raising, a dict with exactly the six required top-level keys, whose
  \<^verbatim>\<open>text_defaults\<close> are the fixed ones: a 32pt bold title and an 18pt body.
\<close>

theorem fallback_total_schema_valid:
  "\<exists>fs. create_fallback_manifest (JObj raw) = Inr (JObj fs)
       \<and> map fst fs = required_keys
       \<and> map_of fs (str ''text_defaults'') = Some fallback_text_defaults
       \<and> at_key (at_key (Some fallback_text_defaults) (str ''title'')) (str ''size_pt'') = Some (JNum 32)
       \<and> at_key (at_key (Some fallback_text_defaults) (str ''title'')) (str ''bold'') = Some (JBool True)
       \<and> at_key (at_index (at_key (Some fallback_text_defaults) (str ''body'')) 0) (str ''size_pt'') = Some (JNum 18)"
  by (simp add: create_fallback_manifest_dict required_keys_def fallback_text_defaults_def)

text \<open>
  C4, as the code has it. The fallback manifest holds under \<^verbatim>\<open>layouts\<close> the very value
  of \<^verbatim>\<open>raw_data["layouts"]\<close> and under \<^verbatim>\<open>assets\<close> the very value of \<^verbatim>\<open>raw_data["images"]\<close>
  (an empty list for a missing key). So every field of every placeholder of every
  layout, the four geometry fields among them, reads the same in both, and so does
  every key of every layout: no \<^verbatim>\<open>archetype\<close> is added.
\<close>

theorem fallback_copies_layouts_and_images:
  "at_key (the_result (create_fallback_manifest (JObj raw))) (str ''layouts'') = Some (raw_list raw (str ''layouts''))
   \<and> at_key (the_result (create_fallback_manifest (JObj raw))) (str ''assets'') = Some (raw_list raw (str ''images''))
   \<and> (\<forall>i j f. placeholder_field (at_key (the_result (create_fallback_manifest (JObj raw))) (str ''layouts'')) i j f
               = placeholder_field (Some (raw_list raw (str ''layouts''))) i j f)
   \<and> (\<forall>i k. at_key (at_index (at_key (the_result (create_fallback_manifest (JObj raw))) (str ''layouts'')) i) k
             = at_key (at_index (Some (raw_list raw (str ''layouts''))) i) k)"
  by (simp add: create_fallback_manifest_dict)

text \<open>
  C4 as stated fails: the claim gives each layout of the fallback manifest the
  archetype \<^verbatim>\<open>other\<close>. The layout of the sample is copied as it is and has no archetype.
\<close>

theorem fallback_archetype_other_counterexample:
  "at_key (at_index (at_key (the_result (create_fallback_manifest sample_raw)) (str ''layouts'')) 0) (str ''name'')
     = Some (JStr (str ''Title Slide''))
   \<and> at_key (at_index (at_key (the_result (create_fallback_manifest sample_raw)) (str ''layouts'')) 0) (str ''archetype'')
     = None
   \<and> at_key (at_index (at_key (the_result (create_fallback_manifest sample_raw)) (str ''layouts'')) 0) (str ''archetype'')
     \<noteq> Some (JStr (str ''other''))"
  by (simp add: create_fallback_manifest_def and_then_def sample_raw_def)

lemma execute_three:
  "execute f = (case find is_result (map f [0, 1, 2]) of Some r \<Rightarrow> r | None \<Rightarrow> f 2)"
  by (cases "f 0"; cases "f (Suc 0)"; cases "f 2")
     (simp_all add: execute_def max_retries_def numeral_2_eq_2 is_retryable_error_def)

text \<open>
  C1, as the code has it. The candidate is not checked against the schema. The result
  of \<^verbatim>\<open>generate_template_manifest\<close> is the outcome of the first of the three attempts
  whose answer parses, returned as parsed; when no attempt gives a parsed answer it is
  the fallback manifest, whose \<^verbatim>\<open>rules.title_color\<close> is \<^verbatim>\<open>primary\<close>.
\<close>

theorem generate_candidate_or_fallback:
  "generate_template_manifest loads call (JObj raw) =
     (case find is_result (map (make_manifest_call loads call) [0, 1, 2]) of
        Some r \<Rightarrow> r
      | None \<Rightarrow> create_fallback_manifest (JObj raw))
   \<and> at_key (at_key (the_result (create_fallback_manifest (JObj raw))) (str ''rules'')) (str ''title_color'')
       = Some (JStr (str ''primary''))"
proof -
  have "at_key (at_key (the_result (create_fallback_manifest (JObj raw))) (str ''rules'')) (str ''title_color'')
       = Some (JStr (str ''primary''))"
    by (simp add: create_fallback_manifest_dict fallback_rules_def)
  moreover have "generate_template_manifest loads call (JObj raw) =
     (case find is_result (map (make_manifest_call loads call) [0, 1, 2]) of
        Some r \<Rightarrow> r
      | None \<Rightarrow> create_fallback_manifest (JObj raw))"
    unfolding generate_template_manifest_def execute_three
    by (cases "make_manifest_call loads call 0"; cases "make_manifest_call loads call (Suc 0)";
        cases "make_manifest_call loads call 2")
       (simp_all add: create_fallback_manifest_dict)
  ultimately show ?thesis by simp
qed

lemma sample_strip:
  \<open>strip sample_response =
     str ''Manifest: {"slide_size": {}, "theme": {}, "layouts": [], "text_defaults": {}, "assets": []}''\<close>
  by (simp add: sample_response_def str_def strip_def is_space_def)

lemma sample_find:
  \<open>py_find (str ''Manifest: {"slide_size": {}, "theme": {}, "layouts": [], "text_defaults": {}, "assets": []}'') 123 = 10\<close>
  by (simp add: str_def)

lemma sample_rfind:
  \<open>py_rfind (str ''Manifest: {"slide_size": {}, "theme": {}, "layouts": [], "text_defaults": {}, "assets": []}'') 125 = 90\<close>
  by (simp add: str_def py_rfind_def)

lemma sample_slice:
  \<open>slice (str ''Manifest: {"slide_size": {}, "theme": {}, "layouts": [], "text_defaults": {}, "assets": []}'') 10 91
     = str ''{"slide_size": {}, "theme": {}, "layouts": [], "text_defaults": {}, "assets": []}''\<close>
  by (simp add: str_def slice_def)

lemma sample_parse: "parse_manifest_response sample_loads sample_response = Inr sample_candidate"
  by (simp add: parse_manifest_response_def sample_strip sample_find sample_rfind sample_slice
      sample_loads_def)

lemma sample_generate:
  "generate_template_manifest sample_loads (\<lambda>k. Inr sample_response) sample_raw = Inr sample_candidate"
  by (simp add: generate_template_manifest_def execute_def max_retries_def numeral_2_eq_2
      make_manifest_call_def and_then_def sample_parse)

lemma sample_candidate_rules: "field sample_candidate (str ''rules'') = None"
  by (simp add: sample_candidate_def)

lemma sample_fallback_rules:
  "at_key (the_result (create_fallback_manifest sample_raw)) (str ''rules'') = Some fallback_rules"
  by (simp add: create_fallback_manifest_def and_then_def sample_raw_def)

text \<open>
  C1 as stated fails: the claim has every candidate that misses a required key
  replaced by the fallback manifest. The sample answer parses to a dict without
  \<^verbatim>\<open>rules\<close>; it is returned as it is, it is not the fallback manifest, and its
  \<^verbatim>\<open>rules.title_color\<close> is not \<^verbatim>\<open>primary\<close>.
\<close>

theorem candidate_without_rules_counterexample:
  "generate_template_manifest sample_loads (\<lambda>k. Inr sample_response) sample_raw = Inr sample_candidate
   \<and> field sample_candidate (str ''rules'') = None
   \<and> generate_template_manifest sample_loads (\<lambda>k. Inr sample_response) sample_raw
       \<noteq> create_fallback_manifest sample_raw
   \<and> at_key (at_key (the_result (generate_template_manifest sample_loads (\<lambda>k. Inr sample_response) sample_raw))
            (str ''rules'')) (str ''title_color'') \<noteq> Some (JStr (str ''primary''))"
proof -
  have "generate_template_manifest sample_loads (\<lambda>k. Inr sample_response) sample_raw
       \<noteq> create_fallback_manifest sample_raw"
  proof
    assume "generate_template_manifest sample_loads (\<lambda>k. Inr sample_response) sample_raw
       = create_fallback_manifest sample_raw"
    then have "at_key (the_result (Inr sample_candidate :: error + json)) (str ''rules'') = Some fallback_rules"
      using sample_fallback_rules by (simp add: sample_generate)
    then show False by (simp add: sample_candidate_rules)
  qed
  then show ?thesis
    by (simp add: sample_generate sample_candidate_rules)
qed


section \<open>Geometry and Theme Extractor: colour slots\<close>

lemma color_name_table:
  "map color_name [0..<12] =
     [str ''bg1'', str ''text1'', str ''bg2'', str ''text2'', str ''accent1'', str ''accent2'',
      str ''accent3'', str ''accent4'', str ''accent5'', str ''accent6'',
      str ''theme_color_10'', str ''theme_color_11'']"
  by (simp add: upt_rec color_name_def str_def)

lemma distinct_color_names: "distinct (map color_name [0..<12])"
  unfolding color_name_table by simp

lemma update_fresh: "k \<notin> fst ` set al \<Longrightarrow> AList.update k v al = al @ [(k, v)]"
  by (induction al) auto

lemma colors_loop_fresh:
  "distinct (map color_name js) \<Longrightarrow> color_name ` set js \<inter> fst ` set cols = {} \<Longrightarrow>
   colors_loop scheme js cols =
     cols @ map (\<lambda>j. (color_name j, the (slot_value (slot_at scheme j))))
                (filter (\<lambda>j. slot_value (slot_at scheme j) \<noteq> None) js)"
proof (induction js arbitrary: cols)
  case Nil
  then show ?case by simp
next
  case (Cons j js)
  show ?case
  proof (cases "slot_at scheme j")
    case (SlotRgb rgb)
    have fresh: "color_name j \<notin> fst ` set cols" using Cons.prems(2) by auto
    have "color_name ` set js \<inter> fst ` set (cols @ [(color_name j, JStr (35 # hex6 rgb))]) = {}"
      using Cons.prems by auto
    with Cons.IH[of "cols @ [(color_name j, JStr (35 # hex6 rgb))]"] Cons.prems(1)
    show ?thesis by (simp add: SlotRgb update_fresh[OF fresh])
  next
    case SlotRaises
    with Cons show ?thesis by auto
  next
    case SlotNoRgb
    with Cons show ?thesis by auto
  qed
qed

lemma slot_at_take: "j < n \<Longrightarrow> slot_at (take n scheme) j = slot_at scheme j"
  by (simp add: slot_at_def)

lemma colors_loop_take:
  "\<forall>j \<in> set js. j < n \<Longrightarrow> colors_loop (take n scheme) js cols = colors_loop scheme js cols"
  by (induction js arbitrary: cols) (simp_all add: slot_at_take)

text \<open>
  C7, as the code has it. The slots \<open>0..9\<close> are named \<^verbatim>\<open>bg1, text1, bg2, text2,
  accent1..accent6\<close>; the slots 10 and 11 are named \<^verbatim>\<open>theme_color_10\<close> and
  \<^verbatim>\<open>theme_color_11\<close>. Of one colour scheme, read into an empty \<^verbatim>\<open>theme.colors\<close>, each of
  the slots \<open>0..11\<close> that has an \<^verbatim>\<open>rgb\<close> gives one entry under its name, in the order of the
  slots; the slots from 12 on are never read.
\<close>

theorem color_slot_names:
  "map color_name [0..<12] =
     [str ''bg1'', str ''text1'', str ''bg2'', str ''text2'', str ''accent1'', str ''accent2'',
      str ''accent3'', str ''accent4'', str ''accent5'', str ''accent6'',
      str ''theme_color_10'', str ''theme_color_11'']
   \<and> extract_colors (Some scheme) [] =
        map (\<lambda>j. (color_name j, the (slot_value (slot_at scheme j))))
            (filter (\<lambda>j. slot_value (slot_at scheme j) \<noteq> None) [0..<12])
   \<and> extract_colors (Some scheme) cols = extract_colors (Some (take 12 scheme)) cols"
proof -
  have "extract_colors (Some scheme) [] =
        map (\<lambda>j. (color_name j, the (slot_value (slot_at scheme j))))
            (filter (\<lambda>j. slot_value (slot_at scheme j) \<noteq> None) [0..<12])"
    using colors_loop_fresh[OF distinct_color_names, of "[]" scheme]
    by (simp add: extract_colors_def)
  moreover have "extract_colors (Some scheme) cols = extract_colors (Some (take 12 scheme)) cols"
    by (simp add: extract_colors_def colors_loop_take)
  ultimately show ?thesis using color_name_table by simp
qed

lemma hex6_samples: "hex6 353217 = str ''0563c1''" "hex6 9785202 = str ''954f72''"
  by (simp_all add: hex6_def hex_digit_def str_def)

lemma sample_template_colors:
  "at_key (at_key (the_result (extract_raw_template_data sample_template)) (str ''theme'')) (str ''colors'')
     = Some (JObj (extract_colors (Some office_scheme) []))"
  by (simp add: extract_raw_template_data_def sample_template_def and_then_def read_int_def
      raw_data_of_def)

text \<open>
  C7 as stated fails: the claim has every index outside \<open>0..9\<close> ignored. The slots 10
  and 11 of the sample template appear in \<^verbatim>\<open>theme.colors\<close>.
\<close>

theorem color_index_ten_counterexample:
  "at_key (at_key (at_key (the_result (extract_raw_template_data sample_template)) (str ''theme'')) (str ''colors''))
       (str ''theme_color_10'') = Some (JStr (str ''#0563c1''))
   \<and> at_key (at_key (at_key (the_result (extract_raw_template_data sample_template)) (str ''theme'')) (str ''colors''))
       (str ''theme_color_11'') = Some (JStr (str ''#954f72''))"
proof -
  have "map_of (extract_colors (Some office_scheme) []) (str ''theme_color_10'') = Some (JStr (35 # hex6 353217))"
       "map_of (extract_colors (Some office_scheme) []) (str ''theme_color_11'') = Some (JStr (35 # hex6 9785202))"
    by (simp_all add: extract_colors_def upt_rec slot_at_def office_scheme_def color_name_def str_def)
  then show ?thesis
    by (simp add: sample_template_colors hex6_samples) (simp add: str_def)
qed


section \<open>Geometry and Theme Extractor: failures\<close>

lemma extract_theme_raises:
  "extract_theme (ms1 @ ThemeRaises # ms2) th = extract_theme ms1 th"
  by (induction ms1 arbitrary: th) (auto split: sum.splits)

lemma extract_placeholders_skip:
  "extract_placeholders (xs @ Raises # ys) = extract_placeholders (xs @ ys)"
  by (induction xs rule: extract_placeholders.induct) simp_all

lemma extract_layouts_skip:
  "extract_layouts (ls1 @ l\<lparr>tl_placeholders := xs @ Raises # ys\<rparr> # ls2) i
     = extract_layouts (ls1 @ l\<lparr>tl_placeholders := xs @ ys\<rparr> # ls2) i"
  by (induction ls1 arbitrary: i) (simp_all add: extract_placeholders_skip split: access.splits)

lemma extract_layouts_name_raises:
  "extract_layouts (ls1 @ l\<lparr>tl_name := Raises\<rparr> # ls2) i = Inl AttributeError"
  by (induction ls1 arbitrary: i) (simp_all add: and_then_def split: access.splits)

lemma extract_shapes_skip:
  "extract_shapes (xs @ Picture Raises # ys) s i = extract_shapes (xs @ OtherShape # ys) s i"
  by (induction xs s i rule: extract_shapes.induct) simp_all

lemma extract_returns: "is_result (extract_raw_template_data t)"
  by (simp add: extract_raw_template_data_def split: sum.splits)

lemma default_theme_empty:
  "at_key (field default_raw_data (str ''theme'')) (str ''colors'') = Some (JObj [])"
  "at_key (field default_raw_data (str ''theme'')) (str ''fonts'') = Some (JObj [])"
  by (simp_all add: default_raw_data_def)

lemma raw_data_of_theme:
  "at_key (field (raw_data_of w h th ls imgs) (str ''theme'')) (str ''colors'') = Some (JObj (colors th))"
  "at_key (field (raw_data_of w h th ls imgs) (str ''theme'')) (str ''fonts'') = Some (JObj (fonts th))"
  by (simp_all add: raw_data_of_def)

lemma theme_raises_first:
  "at_key (at_key (the_result (extract_raw_template_data (Readable (prs\<lparr>slide_masters := ThemeRaises # ms\<rparr>))))
         (str ''theme'')) (str ''colors'') = Some (JObj [])"
  "at_key (at_key (the_result (extract_raw_template_data (Readable (prs\<lparr>slide_masters := ThemeRaises # ms\<rparr>))))
         (str ''theme'')) (str ''fonts'') = Some (JObj [])"
  by (auto simp add: extract_raw_template_data_def and_then_def default_theme_empty raw_data_of_theme
      split: sum.splits)

text \<open>
  C5, as the code has it. The extractor returns raw template data on every template and
  never fails. For a package that cannot be opened, and for a read outside the inner
  handlers that raises (here a layout name), it returns the default data: the default
  slide size, an empty theme, no layouts, no images. A master whose theme cannot be read
  ends the reading of the theme and nothing else: the result is that of the template
  without that master and those after it, so a theme that fails at the first master
  leaves \<^verbatim>\<open>theme.colors\<close> and \<^verbatim>\<open>theme.fonts\<close> empty. A placeholder that cannot be read is
  left out and nothing else: the result is that of the template without it.
\<close>

theorem extraction_never_fails:
  "is_result (extract_raw_template_data t)
   \<and> extract_raw_template_data Unreadable = Inr default_raw_data
   \<and> extract_raw_template_data (Readable (prs\<lparr>slide_layouts := ls1 @ l\<lparr>tl_name := Raises\<rparr> # ls2\<rparr>))
       = Inr default_raw_data
   \<and> extract_raw_template_data (Readable (prs\<lparr>slide_masters := ms1 @ ThemeRaises # ms2\<rparr>))
       = extract_raw_template_data (Readable (prs\<lparr>slide_masters := ms1\<rparr>))
   \<and> at_key (at_key (the_result (extract_raw_template_data (Readable (prs\<lparr>slide_masters := ThemeRaises # ms\<rparr>))))
         (str ''theme'')) (str ''colors'') = Some (JObj [])
   \<and> at_key (at_key (the_result (extract_raw_template_data (Readable (prs\<lparr>slide_masters := ThemeRaises # ms\<rparr>))))
         (str ''theme'')) (str ''fonts'') = Some (JObj [])
   \<and> extract_raw_template_data
         (Readable (prs\<lparr>slide_layouts := ls1 @ l\<lparr>tl_placeholders := xs @ Raises # ys\<rparr> # ls2\<rparr>))
       = extract_raw_template_data
         (Readable (prs\<lparr>slide_layouts := ls1 @ l\<lparr>tl_placeholders := xs @ ys\<rparr> # ls2\<rparr>))"
proof -
  have a: "extract_raw_template_data Unreadable = Inr default_raw_data"
    by (simp add: extract_raw_template_data_def)
  have b: "extract_raw_template_data (Readable (prs\<lparr>slide_layouts := ls1 @ l\<lparr>tl_name := Raises\<rparr> # ls2\<rparr>))
       = Inr default_raw_data"
    by (simp add: extract_raw_template_data_def and_then_def extract_layouts_name_raises split: sum.splits)
  have c: "extract_raw_template_data (Readable (prs\<lparr>slide_masters := ms1 @ ThemeRaises # ms2\<rparr>))
       = extract_raw_template_data (Readable (prs\<lparr>slide_masters := ms1\<rparr>))"
    by (simp add: extract_raw_template_data_def extract_theme_raises)
  have d: "extract_raw_template_data
         (Readable (prs\<lparr>slide_layouts := ls1 @ l\<lparr>tl_placeholders := xs @ Raises # ys\<rparr> # ls2\<rparr>))
       = extract_raw_template_data
         (Readable (prs\<lparr>slide_layouts := ls1 @ l\<lparr>tl_placeholders := xs @ ys\<rparr> # ls2\<rparr>))"
    by (simp add: extract_raw_template_data_def extract_layouts_skip)
  show ?thesis
    using extract_returns a b c d theme_raises_first by blast
qed

text \<open>
  Partial failures at work: the theme of the only master cannot be read and the second
  placeholder of the only layout cannot be read; the rest is extracted.
\<close>

lemma partial_failure_example:
  "extract_raw_template_data (Readable
     \<lparr>slide_width = Value 12192000, slide_height = Value 6858000,
      slide_masters = [ThemeRaises],
      slide_layouts =
        [\<lparr>tl_name = Value (str ''Title Slide''),
          tl_placeholders =
            [Value \<lparr>type_str = str ''PP_PLACEHOLDER.TITLE'', ph_left = 838200, ph_top = 365125,
                    ph_width = 10515600, ph_height = 1325563\<rparr>,
             Raises]\<rparr>],
      slides = [[OtherShape, Picture Raises]]\<rparr>)
   = Inr (JObj
      [(str ''slide_size'', JObj [(str ''width_emu'', JNum 12192000), (str ''height_emu'', JNum 6858000)]),
       (str ''theme'', JObj [(str ''colors'', JObj []), (str ''fonts'', JObj [])]),
       (str ''layouts'', JArr
         [JObj [(str ''index'', JNum 0), (str ''name'', JStr (str ''Title Slide'')),
                (str ''placeholders'', JArr
                  [JObj [(str ''kind'', JStr (str ''TITLE'')), (str ''left'', JNum 838200),
                         (str ''top'', JNum 365125), (str ''width'', JNum 10515600),
                         (str ''height'', JNum 1325563)]])]]),
       (str ''images'', JArr [])])"
proof -
  have "enum_name (str ''PP_PLACEHOLDER.TITLE'') = str ''TITLE''"
    by (simp add: enum_name_def str_def)
  then show ?thesis
    by (simp add: extract_raw_template_data_def and_then_def read_int_def raw_data_of_def ph_data_def)
qed

text \<open>
  C5 as stated fails: the claim has the extractor fail when the package cannot be read.
  It returns the default data instead; the exception is caught.
\<close>

theorem unreadable_package_counterexample:
  "extract_raw_template_data Unreadable = Inr default_raw_data
   \<and> is_result (extract_raw_template_data Unreadable)
   \<and> extract_body Unreadable = Inl PackageNotFoundError"
  by (simp add: extract_raw_template_data_def)


section \<open>Layout Resolver: content before sections\<close>

lemma contains_map: "contains sub s \<Longrightarrow> contains (map f sub) (map f s)"
proof (induction s)
  case Nil
  then show ?case by simp
next
  case (Cons c cs)
  show ?case
  proof (cases "take (length sub) (c # cs) = sub")
    case True
    then have "take (length (map f sub)) (map f (c # cs)) = map f sub"
      by (metis length_map take_map)
    then show ?thesis by simp
  next
    case False
    with Cons show ?thesis by simp
  qed
qed

lemma lower_content: "lower (str ''content'') = str ''content''"
  by (simp add: lower_def str_def)

lemma contains_lower: "contains (str ''content'') a \<Longrightarrow> contains (str ''content'') (lower a)"
  using contains_map[of "str ''content''" a "\<lambda>c. if 65 \<le> c \<and> c \<le> 90 then c + 32 else c"] lower_content
  by (simp add: lower_def)

lemma contains_title_content: "contains (str ''content'') (lower (str ''title_content''))"
  by (simp add: lower_def str_def)

lemma contains_two_content: "contains (str ''content'') (lower (str ''two_content''))"
  by (simp add: lower_def str_def)

lemma not_contains_section: "\<not> contains (str ''content'') (lower (str ''section_header''))"
  by (simp add: lower_def str_def)

lemma content_capable_word: "content_capable ld \<Longrightarrow> has_content_word ld"
  by (auto simp add: content_capable_def has_content_word_def contains_lower contains_title_content
      contains_two_content split: option.splits json.splits)

lemma has_content_word_not_section:
  "has_content_word ld \<Longrightarrow> field ld (str ''archetype'') \<noteq> Some (JStr (str ''section_header''))"
  using not_contains_section by (auto simp add: has_content_word_def)

lemma find_first_find:
  "\<forall>x \<in> set xs. test x = Inr (P x) \<Longrightarrow> find_first test xs = Inr (find P xs)"
  by (induction xs) simp_all

lemma archetype_is_ok:
  "layout_ok ld \<Longrightarrow> archetype_is [a] ld = Inr (is_archetype a ld)"
  by (cases ld) (auto simp add: archetype_is_def is_archetype_def get_def and_then_def
      split: option.splits json.splits)

lemma archetype_has_content_ok:
  "layout_ok ld \<Longrightarrow> archetype_has_content ld = Inr (has_content_word ld)"
  by (cases ld) (auto simp add: archetype_has_content_def has_content_word_def and_then_def lower_def
      split: option.splits json.splits)

lemma content_tiers_ok:
  assumes "list_all layout_ok lds"
  shows "content_tiers (JArr lds) n = Inr (content_choice n lds)"
proof -
  have ok: "\<forall>x \<in> set lds. layout_ok x" using assms by (simp add: list_all_iff)
  have t: "\<And>a. find_first (archetype_is [a]) lds = Inr (find (is_archetype a) lds)"
    by (rule find_first_find) (simp add: ok archetype_is_ok)
  have c: "find_first archetype_has_content lds = Inr (find has_content_word lds)"
    by (rule find_first_find) (simp add: ok archetype_has_content_ok)
  show ?thesis
    by (simp add: content_tiers_def content_choice_def and_then_def t c split: option.splits)
qed

lemma strip_nonempty: "strip c \<noteq> [] \<Longrightarrow> c \<noteq> []"
  by (auto simp add: strip_def)

lemma find_in_set: "find P xs = Some x \<Longrightarrow> x \<in> set xs \<and> P x"
  by (induction xs) (auto split: if_splits)

lemma content_choice_some:
  assumes "list_ex content_capable lds"
  shows "\<exists>ld. content_choice n lds = Some ld \<and> ld \<in> set lds \<and> has_content_word ld"
proof -
  from assms obtain x where x: "x \<in> set lds" "has_content_word x"
    by (auto simp add: list_ex_iff content_capable_word)
  then obtain w where w: "find has_content_word lds = Some w"
    by (cases "find has_content_word lds") (auto simp add: find_None_iff)
  have tc: "has_content_word ld" if "is_archetype (str ''title_content'') ld" for ld
    using that by (auto simp add: is_archetype_def has_content_word_def contains_title_content)
  have tw: "has_content_word ld" if "is_archetype (str ''two_content'') ld" for ld
    using that by (auto simp add: is_archetype_def has_content_word_def contains_two_content)
  show ?thesis
  proof (cases "find (is_archetype (str ''title_content'')) lds")
    case (Some ld)
    then show ?thesis using find_in_set[OF Some] tc by (simp add: content_choice_def)
  next
    case None
    show ?thesis
    proof (cases "if n > 200 then find (is_archetype (str ''two_content'')) lds else None")
      case (Some ld)
      then have f: "find (is_archetype (str ''two_content'')) lds = Some ld"
        by (simp split: if_splits)
      show ?thesis using Some None find_in_set[OF f] tw by (simp add: content_choice_def)
    next
      case n2: None
      show ?thesis using None n2 w find_in_set[OF w] by (simp add: content_choice_def)
    qed
  qed
qed

lemma archetype_is_two_ok:
  "layout_ok ld \<Longrightarrow> archetype_is [a, b] ld = Inr (is_archetype a ld \<or> is_archetype b ld)"
  by (cases ld) (auto simp add: archetype_is_def is_archetype_def get_def and_then_def
      split: option.splits json.splits)

lemma section_tier_ok:
  assumes "list_all layout_ok lds"
  shows "section_tier (JArr lds) = Inr (find is_section_or_title lds)"
proof -
  have ok: "\<forall>x \<in> set lds. layout_ok x" using assms by (simp add: list_all_iff)
  have "find_first (archetype_is [str ''section_header'', str ''title_only'']) lds
          = Inr (find is_section_or_title lds)"
    by (rule find_first_find) (simp add: ok archetype_is_two_ok is_section_or_title_def)
  then show ?thesis by (simp add: section_tier_def and_then_def)
qed

lemma blank_select_general:
  assumes "content slide_content = Some (Text c)"
    and "map_of kvs (str ''layouts'') = Some (JArr lds)"
    and "list_all layout_ok lds"
    and "strip c = []" and "lds \<noteq> []"
  shows "select_layout_def slide_content (JObj kvs)
           = Inr (Some (case find is_section_or_title lds of Some ld \<Rightarrow> ld | None \<Rightarrow> hd lds))"
proof -
  from assms(5) obtain l0 rest where l: "lds = l0 # rest" by (cases lds) auto
  have f: "first_item (JArr lds) = Inr (hd lds)" by (simp add: l)
  show ?thesis
    using assms(4,5)
    by (simp add: select_layout_def_def assms(2) and_then_def get_content_def assms(1)
        section_tier_ok[OF assms(3)] f split: option.splits)
qed

lemma same_name_same_layout:
  assumes "distinct (map name_of lds)" and "ld \<in> set lds" and "ld' \<in> set lds"
    and "name_of ld' = name_of ld"
  shows "ld' = ld"
  using assms by (meson distinct_map inj_on_def)

lemma find_name: "find (\<lambda>l. JStr (sl_name l) = n) prs = Some l \<Longrightarrow> JStr (sl_name l) = n"
  by (induction prs) (auto split: if_splits)

text \<open>
  C2, as the code has it: for content that is not blank, and up to the name. Let the
  content of the block be a string and the manifest's layouts a list of dicts
  (archetypes strings where present). If the content is not blank and a content-capable
  layout is among them, the resolver settles on a layout of the manifest whose archetype
  holds \<^verbatim>\<open>content\<close>, hence not on a \<^verbatim>\<open>section_header\<close> layout, whatever the layout hint: the
  first \<^verbatim>\<open>title_content\<close> layout if there is one, in the manifest's order, as
  \<open>content_choice\<close> says. When the presentation has a layout of that name, the first such
  layout is what the resolver returns, and with distinct names in the manifest no other
  layout of the manifest has its name. If the content is blank, the resolver settles on
  the first \<^verbatim>\<open>section_header\<close> or \<^verbatim>\<open>title_only\<close> layout of the manifest, or on the first
  layout when there is none.
\<close>

theorem content_never_section_header:
  assumes "content slide_content = Some (Text c)"
    and "field manifest (str ''layouts'') = Some (JArr lds)"
    and "list_all layout_ok lds"
  shows "(strip c \<noteq> [] \<and> list_ex content_capable lds \<longrightarrow>
            (\<exists>ld. select_layout_def slide_content manifest = Inr (Some ld)
               \<and> content_choice (length c) lds = Some ld
               \<and> ld \<in> set lds
               \<and> has_content_word ld
               \<and> field ld (str ''archetype'') \<noteq> Some (JStr (str ''section_header''))
               \<and> (\<forall>l. find (\<lambda>l. JStr (sl_name l) = name_of ld) prs = Some l \<longrightarrow>
                     resolve_layout_from_manifest slide_content manifest slide_idx prs = Some l
                     \<and> (distinct (map name_of lds) \<longrightarrow>
                          (\<forall>ld' \<in> set lds. name_of ld' = JStr (sl_name l) \<longrightarrow> ld' = ld)))))
       \<and> (strip c = [] \<and> lds \<noteq> [] \<longrightarrow>
            select_layout_def slide_content manifest
              = Inr (Some (case find is_section_or_title lds of Some ld \<Rightarrow> ld | None \<Rightarrow> hd lds)))"
proof -
  from assms(2) obtain kvs
    where m: "manifest = JObj kvs" and k: "map_of kvs (str ''layouts'') = Some (JArr lds)"
    by (cases manifest) auto
  have blank_part: "strip c = [] \<and> lds \<noteq> [] \<longrightarrow>
            select_layout_def slide_content manifest
              = Inr (Some (case find is_section_or_title lds of Some ld \<Rightarrow> ld | None \<Rightarrow> hd lds))"
    using blank_select_general[OF assms(1) k assms(3)] by (simp add: m)
  have content_part: "\<exists>ld. select_layout_def slide_content manifest = Inr (Some ld)
               \<and> content_choice (length c) lds = Some ld
               \<and> ld \<in> set lds
               \<and> has_content_word ld
               \<and> field ld (str ''archetype'') \<noteq> Some (JStr (str ''section_header''))
               \<and> (\<forall>l. find (\<lambda>l. JStr (sl_name l) = name_of ld) prs = Some l \<longrightarrow>
                     resolve_layout_from_manifest slide_content manifest slide_idx prs = Some l
                     \<and> (distinct (map name_of lds) \<longrightarrow>
                          (\<forall>ld' \<in> set lds. name_of ld' = JStr (sl_name l) \<longrightarrow> ld' = ld)))"
    if nb: "strip c \<noteq> []" and cap: "list_ex content_capable lds"
  proof -
    from cap have ne: "lds \<noteq> []" by (auto simp add: list_ex_iff)
    from content_choice_some[OF cap] obtain ld
      where ld: "content_choice (length c) lds = Some ld" "ld \<in> set lds" "has_content_word ld"
      by blast
    have sel: "select_layout_def slide_content manifest = Inr (Some ld)"
      using nb strip_nonempty[OF nb] ne
      by (simp add: select_layout_def_def m k and_then_def get_content_def assms(1)
          content_tiers_ok[OF assms(3)] ld(1))
    from ld(2) assms(3) have "layout_ok ld" by (simp add: list_all_iff)
    then obtain fs where fs: "ld = JObj fs" by (cases ld) auto
    have res: "resolve_layout_from_manifest slide_content manifest slide_idx prs
                  = find_layout_by_name (name_of ld) prs"
      by (simp add: resolve_layout_from_manifest_def sel and_then_def fs get_def name_of_def
          split: option.splits)
    have found: "resolve_layout_from_manifest slide_content manifest slide_idx prs = Some l
                 \<and> (distinct (map name_of lds) \<longrightarrow>
                      (\<forall>ld' \<in> set lds. name_of ld' = JStr (sl_name l) \<longrightarrow> ld' = ld))"
      if f: "find (\<lambda>l. JStr (sl_name l) = name_of ld) prs = Some l" for l
    proof -
      have n: "JStr (sl_name l) = name_of ld" using find_name[OF f] .
      have "resolve_layout_from_manifest slide_content manifest slide_idx prs = Some l"
        by (simp add: res find_layout_by_name_def f)
      moreover have "ld' = ld"
        if "distinct (map name_of lds)" "ld' \<in> set lds" "name_of ld' = JStr (sl_name l)" for ld'
        using same_name_same_layout[OF that(1) ld(2) that(2)] that(3) n by simp
      ultimately show ?thesis by blast
    qed
    show ?thesis
      using sel ld found has_content_word_not_section[OF ld(3)] by blast
  qed
  show ?thesis using blank_part content_part by blast
qed

lemma sample_layout_defs_ok:
  "list_all layout_ok [sample_layout ''Section'' ''section_header'', sample_layout ''Body'' ''title_content'']"
  by (simp add: sample_layout_def)

lemma sample_content_capable:
  "list_ex content_capable [sample_layout ''Section'' ''section_header'', sample_layout ''Body'' ''title_content'']"
  by (simp add: sample_layout_def content_capable_def)

lemma sample_content_choice:
  "content_choice n [sample_layout ''Section'' ''section_header'', sample_layout ''Body'' ''title_content'']
     = Some (sample_layout ''Body'' ''title_content'')"
  by (simp add: content_choice_def is_archetype_def sample_layout_def)

lemma sample_find_body:
  "find (\<lambda>l. JStr (sl_name l) = name_of (sample_layout ''Body'' ''title_content'')) sample_prs
     = Some \<lparr>sl_name = str ''Body'', sl_no = 1\<rparr>"
  by (simp add: name_of_def sample_layout_def sample_prs_def)

lemma sample_find_section:
  "find is_section_or_title [sample_layout ''Section'' ''section_header'', sample_layout ''Body'' ''title_content'']
     = Some (sample_layout ''Section'' ''section_header'')"
  by (simp add: is_section_or_title_def is_archetype_def sample_layout_def)

lemma sample_manifest_layouts:
  "field sample_manifest (str ''layouts'')
     = Some (JArr [sample_layout ''Section'' ''section_header'', sample_layout ''Body'' ''title_content''])"
  by (simp add: sample_manifest_def)

text \<open>
  C2 on the sample: a block with text and the hint \<^verbatim>\<open>section\<close> gets the title-and-content
  layout, found under its name in the presentation, though the section-header layout
  comes first in the manifest; a block whose content is one space gets the
  section-header layout.
\<close>

theorem content_never_section_header_witness:
  "content text_block = Some (Text (str ''Real content''))
   \<and> strip (str ''Real content'') \<noteq> []
   \<and> layout_hint text_block = Some (str ''section'')
   \<and> field sample_manifest (str ''layouts'')
        = Some (JArr [sample_layout ''Section'' ''section_header'', sample_layout ''Body'' ''title_content''])
   \<and> list_all layout_ok [sample_layout ''Section'' ''section_header'', sample_layout ''Body'' ''title_content'']
   \<and> list_ex content_capable [sample_layout ''Section'' ''section_header'', sample_layout ''Body'' ''title_content'']
   \<and> find (\<lambda>l. JStr (sl_name l) = name_of (sample_layout ''Body'' ''title_content'')) sample_prs
        = Some \<lparr>sl_name = str ''Body'', sl_no = 1\<rparr>
   \<and> distinct (map name_of [sample_layout ''Section'' ''section_header'', sample_layout ''Body'' ''title_content''])
   \<and> select_layout_def text_block sample_manifest = Inr (Some (sample_layout ''Body'' ''title_content''))
   \<and> resolve_layout_from_manifest text_block sample_manifest 0 sample_prs
        = Some \<lparr>sl_name = str ''Body'', sl_no = 1\<rparr>
   \<and> content blank_block = Some (Text [32])
   \<and> strip [32] = []
   \<and> select_layout_def blank_block sample_manifest = Inr (Some (sample_layout ''Section'' ''section_header''))"
proof -
  let ?lds = "[sample_layout ''Section'' ''section_header'', sample_layout ''Body'' ''title_content'']"
  have h1: "content text_block = Some (Text (str ''Real content''))" by (simp add: text_block_def)
  have h2: "strip (str ''Real content'') \<noteq> []" by (simp add: strip_def is_space_def str_def)
  have b1: "content blank_block = Some (Text [32])" by (simp add: blank_block_def str_def)
  have b2: "strip [32] = []" by (simp add: strip_def is_space_def)
  from content_never_section_header[OF h1 sample_manifest_layouts sample_layout_defs_ok, of sample_prs 0]
    h2 sample_content_capable
  obtain ld where s: "select_layout_def text_block sample_manifest = Inr (Some ld)"
    and c: "content_choice (length (str ''Real content'')) ?lds = Some ld"
    and r: "\<forall>l. find (\<lambda>l. JStr (sl_name l) = name_of ld) sample_prs = Some l \<longrightarrow>
              resolve_layout_from_manifest text_block sample_manifest 0 sample_prs = Some l"
    by blast
  from c have ld: "ld = sample_layout ''Body'' ''title_content''"
    by (simp add: sample_content_choice)
  have t: "select_layout_def text_block sample_manifest = Inr (Some (sample_layout ''Body'' ''title_content''))"
    and u: "resolve_layout_from_manifest text_block sample_manifest 0 sample_prs
           = Some \<lparr>sl_name = str ''Body'', sl_no = 1\<rparr>"
    using s r sample_find_body unfolding ld by simp_all
  have v: "select_layout_def blank_block sample_manifest = Inr (Some (sample_layout ''Section'' ''section_header''))"
  proof -
    from content_never_section_header[OF b1 sample_manifest_layouts sample_layout_defs_ok] b2
    have "select_layout_def blank_block sample_manifest
            = Inr (Some (case find is_section_or_title ?lds of Some ld \<Rightarrow> ld | None \<Rightarrow> hd ?lds))"
      by blast
    then show ?thesis by (simp only: sample_find_section option.case)
  qed
  have d: "distinct (map name_of ?lds)" by (simp add: name_of_def sample_layout_def)
  show ?thesis
    using h1 h2 b1 b2 sample_manifest_layouts sample_layout_defs_ok sample_content_capable
      sample_find_body t u v d
    by (simp add: text_block_def)
qed

lemma blank_select:
  "select_layout_def blank_block sample_manifest = Inr (Some (sample_layout ''Section'' ''section_header''))"
  by (simp add: select_layout_def_def sample_manifest_def and_then_def get_content_def blank_block_def
      get_layout_hint_def section_tier_def archetype_is_def get_def sample_layout_def
      strip_def is_space_def str_def)

lemma text_select:
  "select_layout_def text_block sample_manifest = Inr (Some (sample_layout ''Body'' ''title_content''))"
  by (simp add: select_layout_def_def sample_manifest_def and_then_def get_content_def text_block_def
      content_tiers_def archetype_is_def get_def sample_layout_def
      strip_def is_space_def str_def)

text \<open>
  C2 as stated fails, at two inputs. The claim is about every content that is present
  and not empty: a content of one space is present and not empty; the resolver strips
  it, finds no content, and settles on the section-header layout. And the claim is about
  the layout the resolver returns: for the block with text the resolver settles on the
  title-and-content layout of the manifest, the presentation has no layout of that
  name, and what is returned is the second layout of the presentation, here the one
  named \<^verbatim>\<open>Section\<close>.
\<close>

theorem blank_content_counterexample:
  "content blank_block = Some (Text [32])
   \<and> list_ex content_capable [sample_layout ''Section'' ''section_header'', sample_layout ''Body'' ''title_content'']
   \<and> field sample_manifest (str ''layouts'')
        = Some (JArr [sample_layout ''Section'' ''section_header'', sample_layout ''Body'' ''title_content''])
   \<and> select_layout_def blank_block sample_manifest = Inr (Some (sample_layout ''Section'' ''section_header''))
   \<and> field (sample_layout ''Section'' ''section_header'') (str ''archetype'') = Some (JStr (str ''section_header''))
   \<and> resolve_layout_from_manifest blank_block sample_manifest 0 sample_prs
        = Some \<lparr>sl_name = str ''Section'', sl_no = 2\<rparr>
   \<and> content text_block = Some (Text (str ''Real content''))
   \<and> select_layout_def text_block sample_manifest = Inr (Some (sample_layout ''Body'' ''title_content''))
   \<and> resolve_layout_from_manifest text_block sample_manifest 0 short_prs
        = Some \<lparr>sl_name = str ''Section'', sl_no = 1\<rparr>"
proof -
  have "content blank_block = Some (Text [32])" by (simp add: blank_block_def str_def)
  moreover have "field (sample_layout ''Section'' ''section_header'') (str ''archetype'')
        = Some (JStr (str ''section_header''))"
    by (simp add: sample_layout_def)
  moreover have "resolve_layout_from_manifest blank_block sample_manifest 0 sample_prs
        = Some \<lparr>sl_name = str ''Section'', sl_no = 2\<rparr>"
    by (simp add: resolve_layout_from_manifest_def blank_select and_then_def)
       (simp add: sample_layout_def get_def find_layout_by_name_def sample_prs_def)
  moreover have "content text_block = Some (Text (str ''Real content''))"
    by (simp add: text_block_def)
  moreover have "resolve_layout_from_manifest text_block sample_manifest 0 short_prs
        = Some \<lparr>sl_name = str ''Section'', sl_no = 1\<rparr>"
    by (simp add: resolve_layout_from_manifest_def text_select and_then_def)
       (simp add: sample_layout_def get_def find_layout_by_name_def short_prs_def default_layout_def)
  ultimately show ?thesis
    using sample_content_capable sample_manifest_layouts blank_select text_select by simp
qed


section \<open>Layout Resolver: content that is a list\<close>

lemma list_content_select:
  assumes "content slide_content = Some (Items xs)"
  shows "select_layout_def slide_content manifest = Inr None
       \<or> (\<exists>e. select_layout_def slide_content manifest = Inl e)"
  by (cases "get_or manifest (str ''layouts'') (JArr [])")
     (simp_all add: select_layout_def_def and_then_def get_content_def assms)

text \<open>
  C9. For a block whose content is a list, \<^verbatim>\<open>_resolve_layout_from_manifest\<close> returns
  \<^verbatim>\<open>None\<close> whatever the manifest and the presentation are (with layouts in the manifest,
  because \<^verbatim>\<open>.strip()\<close> raises on the list), and the slide is created with the default
  layout: the second layout of the presentation, or the first when there is only one.
\<close>

theorem list_content_resolves_none:
  assumes "content slide_content = Some (Items xs)"
  shows "resolve_layout_from_manifest slide_content manifest slide_idx prs = None
       \<and> (field manifest (str ''layouts'') = Some (JArr (l # ls)) \<longrightarrow>
            select_layout_def slide_content manifest = Inl AttributeError)
       \<and> create_slide_layout slide_content manifest slide_idx prs = default_layout prs
       \<and> (length prs = 1 \<longrightarrow> create_slide_layout slide_content manifest slide_idx prs = Inr (prs ! 0))
       \<and> (length prs > 1 \<longrightarrow> create_slide_layout slide_content manifest slide_idx prs = Inr (prs ! 1))"
proof -
  have a: "field manifest (str ''layouts'') = Some (JArr (l # ls)) \<longrightarrow>
            select_layout_def slide_content manifest = Inl AttributeError"
    by (cases manifest) (auto simp add: select_layout_def_def and_then_def get_content_def assms)
  have r: "resolve_layout_from_manifest slide_content manifest slide_idx prs = None"
    using list_content_select[OF assms, of manifest]
    by (auto simp add: resolve_layout_from_manifest_def and_then_def)
  have c: "create_slide_layout slide_content manifest slide_idx prs = default_layout prs"
    by (simp add: create_slide_layout_def r split: sum.splits)
  have "length prs = 1 \<longrightarrow> default_layout prs = Inr (prs ! 0)"
    by (cases prs) (simp_all add: default_layout_def)
  moreover have "length prs > 1 \<longrightarrow> default_layout prs = Inr (prs ! 1)"
    by (simp add: default_layout_def)
  ultimately show ?thesis using r a c by simp
qed

text \<open>
  C9 on the sample: the manifest has a title-and-content layout, and still the list
  block gets the second layout of a presentation with three layouts, and the only
  layout of a presentation with one.
\<close>

theorem list_content_resolves_none_witness:
  "content list_block = Some (Items [str ''First'', str ''Second''])
   \<and> list_ex content_capable [sample_layout ''Section'' ''section_header'', sample_layout ''Body'' ''title_content'']
   \<and> field sample_manifest (str ''layouts'')
        = Some (JArr [sample_layout ''Section'' ''section_header'', sample_layout ''Body'' ''title_content''])
   \<and> resolve_layout_from_manifest list_block sample_manifest 0 sample_prs = None
   \<and> select_layout_def list_block sample_manifest = Inl AttributeError
   \<and> create_slide_layout list_block sample_manifest 0 sample_prs = Inr \<lparr>sl_name = str ''Body'', sl_no = 1\<rparr>
   \<and> create_slide_layout list_block sample_manifest 0 [\<lparr>sl_name = str ''Title'', sl_no = 0\<rparr>]
        = Inr \<lparr>sl_name = str ''Title'', sl_no = 0\<rparr>"
proof -
  have h: "content list_block = Some (Items [str ''First'', str ''Second''])"
    by (simp add: list_block_def)
  have m: "field sample_manifest (str ''layouts'')
        = Some (JArr [sample_layout ''Section'' ''section_header'', sample_layout ''Body'' ''title_content''])"
    by (simp add: sample_manifest_def)
  show ?thesis
    using h m sample_content_capable
      list_content_resolves_none[OF h, of sample_manifest 0 sample_prs
        "sample_layout ''Section'' ''section_header''" "[sample_layout ''Body'' ''title_content'']"]
      list_content_resolves_none[OF h, of sample_manifest 0 "[\<lparr>sl_name = str ''Title'', sl_no = 0\<rparr>]"]
    by (simp add: sample_prs_def default_layout_def)
qed


section \<open>Styling Applier: the body text\<close>

lemma all_dropWhile: "(\<forall>x \<in> set (dropWhile P xs). P x) \<longleftrightarrow> (\<forall>x \<in> set xs. P x)"
proof
  assume a: "\<forall>x \<in> set (dropWhile P xs). P x"
  have "dropWhile P xs = []"
  proof (rule ccontr)
    assume n: "dropWhile P xs \<noteq> []"
    then have "\<not> P (hd (dropWhile P xs))" by (rule hd_dropWhile)
    moreover have "hd (dropWhile P xs) \<in> set (dropWhile P xs)" using n by simp
    ultimately show False using a by blast
  qed
  then show "\<forall>x \<in> set xs. P x" by (simp add: dropWhile_eq_Nil_conv)
next
  assume "\<forall>x \<in> set xs. P x"
  then show "\<forall>x \<in> set (dropWhile P xs). P x" by (meson set_dropWhileD)
qed

lemma blank_iff: "blank s \<longleftrightarrow> (\<forall>c \<in> set s. is_space c)"
  by (simp add: blank_def strip_def dropWhile_eq_Nil_conv all_dropWhile)

lemma synthesized_not_blank: "\<not> blank (synthesized t)"
  by (auto simp add: blank_iff synthesized_def is_space_def str_def)

lemma join_bullets_head:
  assumes "xs \<noteq> []"
  shows "\<exists>rest. join [10] (map bullet_line xs) = 8226 # rest"
proof (cases xs)
  case Nil
  with assms show ?thesis by simp
next
  case (Cons x ys)
  then show ?thesis by (cases ys) (simp_all add: bullet_line_def)
qed

lemma bullets_not_blank: "xs \<noteq> [] \<Longrightarrow> \<not> blank (join [10] (map bullet_line xs))"
proof -
  assume "xs \<noteq> []"
  then obtain rest where "join [10] (map bullet_line xs) = 8226 # rest"
    using join_bullets_head by blast
  then show ?thesis by (simp add: blank_iff is_space_def)
qed

lemma body_text_empty:
  "\<not> content_truthy (get_content slide_content) \<Longrightarrow>
   body_text slide_content = Some (synthesized (get_title slide_content))"
  by (simp add: body_text_def synthesized_def Let_def)

lemma body_text_text:
  "get_content slide_content = Text s \<Longrightarrow> s \<noteq> [] \<Longrightarrow> body_text slide_content = Some s"
  by (simp add: body_text_def Let_def)

lemma body_text_items:
  "get_content slide_content = Items xs \<Longrightarrow> xs \<noteq> [] \<Longrightarrow>
   body_text slide_content = Some (join [10] (map bullet_line xs))"
  by (simp add: body_text_def Let_def)

lemma body_text_some:
  "\<exists>t. body_text slide_content = Some t \<and> t \<noteq> []
       \<and> (blank t \<longleftrightarrow> (\<exists>s. content slide_content = Some (Text s) \<and> s \<noteq> [] \<and> blank s))"
proof (cases "content_truthy (get_content slide_content)")
  case False
  then have e: "\<not> (\<exists>s. content slide_content = Some (Text s) \<and> s \<noteq> [] \<and> blank s)"
    by (auto simp add: get_content_def)
  have "synthesized (get_title slide_content) \<noteq> []"
    by (simp add: synthesized_def)
  with False e show ?thesis
    by (simp add: body_text_empty synthesized_not_blank)
next
  case True
  show ?thesis
  proof (cases "get_content slide_content")
    case (Text s)
    with True have s: "s \<noteq> []" by simp
    from Text s have "content slide_content = Some (Text s)"
      by (auto simp add: get_content_def split: option.splits)
    then show ?thesis using s by (simp add: body_text_text[OF Text s])
  next
    case (Items xs)
    with True have x: "xs \<noteq> []" by simp
    from Items have c: "content slide_content = Some (Items xs)"
      by (auto simp add: get_content_def split: option.splits)
    obtain rest where r: "join [10] (map bullet_line xs) = 8226 # rest"
      using join_bullets_head[OF x] by blast
    show ?thesis
      using bullets_not_blank[OF x] by (simp add: body_text_items[OF Items x] c r)
  qed
qed

lemma styling_reaches:
  assumes "reaches_body sl manifest"
  shows "body_search (apply_manifest_styling sl slide_content manifest)
           = body_search (write_body sl slide_content)"
proof -
  from assms obtain kvs where m: "manifest = JObj kvs"
    by (cases manifest) (auto simp add: reaches_body_def)
  from assms have th: "dict_or_absent (map_of kvs (str ''theme''))"
    by (simp add: reaches_body_def m)
  have pre: "and_then (get_or manifest (str ''text_defaults'') (JObj [])) (\<lambda>text_defaults.
           and_then (get_or manifest (str ''theme'') (JObj [])) (\<lambda>theme.
           and_then (get_or theme (str ''palette'') (JObj [])) (\<lambda>theme_palette.
             Inr text_defaults)))
         = Inr (case map_of kvs (str ''text_defaults'') of Some v \<Rightarrow> v | None \<Rightarrow> JObj [])"
  proof (cases "map_of kvs (str ''theme'')")
    case None
    then show ?thesis by (simp add: m and_then_def)
  next
    case (Some v)
    with th obtain ts where "v = JObj ts" by (cases v) auto
    with Some show ?thesis by (simp add: m and_then_def)
  qed
  show ?thesis
  proof (cases "title_shape sl")
    case None
    then show ?thesis by (simp add: apply_manifest_styling_def pre)
  next
    case (Some sh)
    with assms have w: "\<not> write_raises sh"
      and d: "has_text_frame sh \<Longrightarrow> dict_or_absent (map_of kvs (str ''text_defaults''))"
      by (simp_all add: reaches_body_def m)
    have bs: "body_search (write_body (sl\<lparr>title_shape := t\<rparr>) slide_content)
                = body_search (write_body sl slide_content)" for t
      by (simp add: write_body_def split: option.splits search.splits)
    show ?thesis
    proof (cases "has_text_frame sh")
      case False
      then show ?thesis by (simp add: apply_manifest_styling_def pre Some w bs Let_def)
    next
      case True
      have "\<exists>r. get_or (case map_of kvs (str ''text_defaults'') of Some v \<Rightarrow> v | None \<Rightarrow> JObj [])
                (str ''title'') (JObj []) = Inr r"
      proof (cases "map_of kvs (str ''text_defaults'')")
        case None
        then show ?thesis by simp
      next
        case (Some v)
        with d[OF True] obtain ts where "v = JObj ts" by (cases v) auto
        with Some show ?thesis by simp
      qed
      then obtain r where r: "get_or (case map_of kvs (str ''text_defaults'') of Some v \<Rightarrow> v | None \<Rightarrow> JObj [])
                (str ''title'') (JObj []) = Inr r" by blast
      show ?thesis by (simp add: apply_manifest_styling_def pre Some w True r bs Let_def)
    qed
  qed
qed

lemma styling_body_either:
  "body_search (apply_manifest_styling sl slide_content manifest) = body_search sl
   \<or> body_search (apply_manifest_styling sl slide_content manifest)
        = body_search (write_body sl slide_content)"
proof -
  have bs: "body_search (write_body (sl\<lparr>title_shape := t\<rparr>) slide_content)
                = body_search (write_body sl slide_content)" for t
    by (simp add: write_body_def split: option.splits search.splits)
  show ?thesis
    by (auto simp add: apply_manifest_styling_def bs Let_def split: sum.splits option.splits)
qed

text \<open>
  C6, as the code has it: for empty content, and where the styling gets as far as the
  body. When the content is empty (absent, an empty string or an empty list), the body
  text is \<^verbatim>\<open>Key points about {title}\<close> for a title that is not empty and
  \<^verbatim>\<open>Content will be added here\<close> otherwise, and it is not blank. Content that is not empty
  is the body text as it is: the string itself, or the items of the list, one per line
  after a bullet. So for every block the body text exists and is not empty, and it is
  blank exactly when the content is a string that is not empty and blank. Where the
  styling gets as far as the body and the search ends on a shape with a text frame that
  can be written, that shape holds the body text after the call. In every case the body
  shape is either written so or left as it was.
\<close>

theorem empty_content_synthesized:
  "(\<not> content_truthy (get_content slide_content) \<longrightarrow>
      body_text slide_content = Some (synthesized (get_title slide_content))
      \<and> \<not> blank (synthesized (get_title slide_content)))
   \<and> (\<forall>s. content slide_content = Some (Text s) \<and> s \<noteq> [] \<longrightarrow> body_text slide_content = Some s)
   \<and> (\<forall>xs. content slide_content = Some (Items xs) \<and> xs \<noteq> [] \<longrightarrow>
          body_text slide_content = Some (join [10] (map bullet_line xs)))
   \<and> (\<exists>t. body_text slide_content = Some t \<and> t \<noteq> []
          \<and> (blank t \<longleftrightarrow> (\<exists>s. content slide_content = Some (Text s) \<and> s \<noteq> [] \<and> blank s))
          \<and> (\<forall>sh. reaches_body sl manifest \<and> body_search sl = Found sh
                    \<and> has_text_frame sh \<and> \<not> write_raises sh \<longrightarrow>
                 body_search (apply_manifest_styling sl slide_content manifest)
                   = Found (sh\<lparr>shape_text := t\<rparr>))
          \<and> (body_search (apply_manifest_styling sl slide_content manifest) = body_search sl
              \<or> (\<exists>sh. body_search sl = Found sh
                       \<and> body_search (apply_manifest_styling sl slide_content manifest)
                           = Found (sh\<lparr>shape_text := t\<rparr>))))"
proof -
  have a: "\<not> content_truthy (get_content slide_content) \<longrightarrow>
      body_text slide_content = Some (synthesized (get_title slide_content))
      \<and> \<not> blank (synthesized (get_title slide_content))"
    by (simp add: body_text_empty synthesized_not_blank)
  have b: "\<forall>s. content slide_content = Some (Text s) \<and> s \<noteq> [] \<longrightarrow> body_text slide_content = Some s"
    by (simp add: body_text_text get_content_def)
  have c: "\<forall>xs. content slide_content = Some (Items xs) \<and> xs \<noteq> [] \<longrightarrow>
          body_text slide_content = Some (join [10] (map bullet_line xs))"
    by (simp add: body_text_items get_content_def)
  from body_text_some[of slide_content] obtain t
    where t: "body_text slide_content = Some t" "t \<noteq> []"
      "blank t \<longleftrightarrow> (\<exists>s. content slide_content = Some (Text s) \<and> s \<noteq> [] \<and> blank s)"
    by blast
  have d: "body_search (apply_manifest_styling sl slide_content manifest) = Found (sh\<lparr>shape_text := t\<rparr>)"
    if "reaches_body sl manifest" "body_search sl = Found sh" "has_text_frame sh" "\<not> write_raises sh"
    for sh
    using that by (simp add: styling_reaches write_body_def t(1))
  have e: "body_search (apply_manifest_styling sl slide_content manifest) = body_search sl
              \<or> (\<exists>sh. body_search sl = Found sh
                       \<and> body_search (apply_manifest_styling sl slide_content manifest)
                           = Found (sh\<lparr>shape_text := t\<rparr>))"
    using styling_body_either[of sl slide_content manifest]
    by (auto simp add: write_body_def t(1) split: search.splits if_splits)
  show ?thesis using a b c t d e by blast
qed

lemma sample_reaches: "reaches_body sample_slide style_manifest"
  by (simp add: reaches_body_def sample_slide_def style_manifest_def empty_shape_def
      fallback_theme_def fallback_text_defaults_def)

text \<open>
  C6 on a block with the title \<^verbatim>\<open>Intro\<close> and empty content, a manifest with the theme and
  the text defaults of the fallback, and a slide with a title shape and a body shape;
  and the body text of a block with text and of a block with a list.
\<close>

theorem empty_content_synthesized_witness:
  "\<not> content_truthy (get_content empty_block)
   \<and> reaches_body sample_slide style_manifest
   \<and> body_search sample_slide = Found empty_shape
   \<and> has_text_frame empty_shape \<and> \<not> write_raises empty_shape
   \<and> body_text empty_block = Some (str ''Key points about Intro'')
   \<and> \<not> blank (str ''Key points about Intro'')
   \<and> body_search (apply_manifest_styling sample_slide empty_block style_manifest)
       = Found (empty_shape\<lparr>shape_text := str ''Key points about Intro''\<rparr>)
   \<and> content text_block = Some (Text (str ''Real content''))
   \<and> body_text text_block = Some (str ''Real content'')
   \<and> content list_block = Some (Items [str ''First'', str ''Second''])
   \<and> body_text list_block = Some (join [10] (map bullet_line [str ''First'', str ''Second'']))"
proof -
  have c1: "content text_block = Some (Text (str ''Real content''))"
    and c2: "content list_block = Some (Items [str ''First'', str ''Second''])"
    by (simp_all add: text_block_def list_block_def)
  have b1: "body_text text_block = Some (str ''Real content'')"
    using empty_content_synthesized[of text_block sample_slide style_manifest] c1 by simp
  have b2: "body_text list_block = Some (join [10] (map bullet_line [str ''First'', str ''Second'']))"
    using empty_content_synthesized[of list_block sample_slide style_manifest] c2 by simp
  have h: "\<not> content_truthy (get_content empty_block)"
    by (simp add: empty_block_def get_content_def)
  have s: "synthesized (get_title empty_block) = str ''Key points about Intro''"
    by (simp add: synthesized_def get_title_def empty_block_def str_def)
  have f: "body_search sample_slide = Found empty_shape"
    and g: "has_text_frame empty_shape" and w: "\<not> write_raises empty_shape"
    by (simp_all add: sample_slide_def empty_shape_def)
  from empty_content_synthesized[of empty_block sample_slide style_manifest] h s
  obtain t where t: "body_text empty_block = Some t"
      "body_text empty_block = Some (str ''Key points about Intro'')"
      "\<not> blank (str ''Key points about Intro'')"
    and r: "\<forall>sh. reaches_body sample_slide style_manifest \<and> body_search sample_slide = Found sh
                    \<and> has_text_frame sh \<and> \<not> write_raises sh \<longrightarrow>
                 body_search (apply_manifest_styling sample_slide empty_block style_manifest)
                   = Found (sh\<lparr>shape_text := t\<rparr>)"
    by auto
  from t have "t = str ''Key points about Intro''" by simp
  with r sample_reaches f g w
  have "body_search (apply_manifest_styling sample_slide empty_block style_manifest)
       = Found (empty_shape\<lparr>shape_text := str ''Key points about Intro''\<rparr>)"
    by blast
  then show ?thesis using h sample_reaches f g w t c1 c2 b1 b2 by simp
qed

text \<open>
  The styling that does not get as far as the body: with a theme that is \<^verbatim>\<open>null\<close> the
  second read raises, and neither the title nor the body is written.
\<close>

lemma null_theme_example:
  "apply_manifest_styling sample_slide empty_block null_theme_manifest = sample_slide"
  by (simp add: apply_manifest_styling_def null_theme_manifest_def and_then_def)

text \<open>
  C6 as stated fails: the claim has blank content replaced too. A content of one space
  is blank; it is not replaced, and the body shape gets the blank text.
\<close>

theorem blank_body_counterexample:
  "content blank_block = Some (Text [32])
   \<and> blank [32]
   \<and> title blank_block = Some (str ''Intro'')
   \<and> body_text blank_block = Some [32]
   \<and> body_text blank_block \<noteq> Some (str ''Key points about Intro'')
   \<and> body_search (apply_manifest_styling sample_slide blank_block style_manifest)
       = Found (empty_shape\<lparr>shape_text := [32]\<rparr>)"
proof -
  have b: "body_text blank_block = Some [32]"
    by (simp add: blank_block_def body_text_def get_content_def get_title_def Let_def str_def)
  have "body_search (apply_manifest_styling sample_slide blank_block style_manifest)
       = Found (empty_shape\<lparr>shape_text := [32]\<rparr>)"
    by (simp add: styling_reaches[OF sample_reaches] write_body_def b)
       (simp add: sample_slide_def empty_shape_def)
  moreover have "content blank_block = Some (Text [32])" "title blank_block = Some (str ''Intro'')"
    by (simp_all add: blank_block_def str_def)
  moreover have "blank [32]" by (simp add: blank_def strip_def is_space_def)
  moreover have "body_text blank_block \<noteq> Some (str ''Key points about Intro'')"
    by (simp add: b str_def)
  ultimately show ?thesis using b by simp
qed


section \<open>Text formatting: what it leaves alone\<close>

lemma apply_frame_cases:
  "apply_text_formatting lib [] rules palette = []"
  "apply_text_formatting lib (p\<lparr>runs := []\<rparr> # ps) rules palette = p\<lparr>runs := []\<rparr> # ps"
  by (simp_all add: apply_text_formatting_def)

text \<open>
  C10. Whatever the library does, \<^verbatim>\<open>_apply_text_formatting\<close> keeps the number of
  paragraphs, every paragraph after the first, the level of every paragraph, the text
  of every run, and every run after the first of its paragraph: only the font of the
  first run of the first paragraph can differ. A text frame without paragraphs, and one
  whose first paragraph has no runs, are returned as they are.
\<close>

theorem formatting_touches_first_run_only:
  "length (apply_text_formatting lib tf rules palette) = length tf
   \<and> tl (apply_text_formatting lib tf rules palette) = tl tf
   \<and> map level (apply_text_formatting lib tf rules palette) = map level tf
   \<and> map (\<lambda>p. map run_text (runs p)) (apply_text_formatting lib tf rules palette)
       = map (\<lambda>p. map run_text (runs p)) tf
   \<and> map (\<lambda>p. tl (runs p)) (apply_text_formatting lib tf rules palette) = map (\<lambda>p. tl (runs p)) tf
   \<and> apply_text_formatting lib [] rules palette = []
   \<and> apply_text_formatting lib (p\<lparr>runs := []\<rparr> # ps) rules palette = p\<lparr>runs := []\<rparr> # ps"
proof (cases tf)
  case Nil
  then show ?thesis by (simp add: apply_frame_cases)
next
  case (Cons q qs)
  show ?thesis
  proof (cases "runs q")
    case Nil
    with Cons show ?thesis by (simp add: apply_text_formatting_def)
  next
    case (Cons r rs)
    with \<open>tf = q # qs\<close> show ?thesis by (simp add: apply_text_formatting_def)
  qed
qed

text \<open>
  The formatting at work: the title rules and the palette of the fallback manifest
  applied to a frame of two paragraphs.
\<close>

lemma sample_color: "set_color simple_library (str ''1f4e79'') f = f\<lparr>f_rgb := Some (31, 78, 121)\<rparr>"
  by (simp add: set_color_def simple_library_def simple_int16_def hex_value_def slice_def and_then_def
      str_def)

lemma simple_library_simps:
  "set_name simple_library (JStr s) f = Inr (f\<lparr>f_name := Some (JStr s)\<rparr>)"
  "set_size simple_library (JNum n) f = Inr (f\<lparr>f_size := Some (n * 12700)\<rparr>)"
  "set_bold simple_library f = Inr (f\<lparr>f_bold := True\<rparr>)"
  by (simp_all add: simple_library_def)

lemma formatting_example:
  "apply_text_formatting simple_library sample_frame
     (JObj [(str ''family'', JStr (str ''Calibri'')), (str ''size_pt'', JNum 32),
            (str ''bold'', JBool True), (str ''color'', JStr (str ''primary''))])
     (JObj [(str ''primary'', JStr (str ''#1f4e79'')), (str ''text'', JStr (str ''#000000''))])
   = [\<lparr>level = 0,
       runs = [\<lparr>run_text = str ''Quarterly '',
                 font = \<lparr>f_name = Some (JStr (str ''Calibri'')), f_size = Some 406400, f_bold = True,
                         f_rgb = Some (31, 78, 121)\<rparr>\<rparr>,
               \<lparr>run_text = str ''review'', font = plain_font\<rparr>]\<rparr>,
      \<lparr>level = 1, runs = [\<lparr>run_text = str ''Second paragraph'', font = plain_font\<rparr>]\<rparr>]"
proof -
  have h: "filter (\<lambda>c. c \<noteq> 35) (str ''#1f4e79'') = str ''1f4e79''" by (simp add: str_def)
  have l: "length (str ''1f4e79'') = 6" by (simp add: str_def)
  show ?thesis
    by (simp add: apply_text_formatting_def sample_frame_def apply_font_def apply_size_def
        apply_bold_def apply_color_def get_def h l sample_color simple_library_simps plain_font_def)
qed


section \<open>Asset Placer: the policy, and the slide\<close>

lemma should_apply_dict:
  "should_apply (JObj kvs) i =
     Inr (map_of kvs (str ''apply_on'') = Some (JStr (str ''all''))
          \<or> (map_of kvs (str ''apply_on'') = Some (JStr (str ''title_only'')) \<and> i = 0))"
  by (simp add: should_apply_def and_then_def split: option.split)

lemma assets_loop_filter:
  "list_all is_dict assets \<Longrightarrow>
   assets_loop assets i =
     filter (\<lambda>a. field a (str ''apply_on'') = Some (JStr (str ''all''))
                \<or> (field a (str ''apply_on'') = Some (JStr (str ''title_only'')) \<and> i = 0)) assets"
proof (induction assets)
  case Nil
  then show ?case by simp
next
  case (Cons a as)
  then obtain kvs where a: "a = JObj kvs" by (cases a) auto
  from Cons show ?case by (simp add: a should_apply_dict)
qed

text \<open>
  The decision is the one of the specification: for a manifest whose \<^verbatim>\<open>assets\<close> is a list
  of dicts, the assets for which the line is printed on the slide of index \<open>i\<close> are
  exactly those whose \<^verbatim>\<open>apply_on\<close> is \<^verbatim>\<open>all\<close>, or is \<^verbatim>\<open>title_only\<close> while \<open>i = 0\<close>.
\<close>

lemma assets_printed:
  assumes "field manifest (str ''assets'') = Some (JArr assets)"
    and "list_all is_dict assets"
  shows "snd (add_manifest_assets sl manifest i) =
     filter (\<lambda>a. field a (str ''apply_on'') = Some (JStr (str ''all''))
                \<or> (field a (str ''apply_on'') = Some (JStr (str ''title_only'')) \<and> i = 0)) assets"
proof -
  from assms(1) obtain kvs
    where m: "manifest = JObj kvs" and k: "map_of kvs (str ''assets'') = Some (JArr assets)"
    by (cases manifest) auto
  show ?thesis
    by (simp add: add_manifest_assets_def m k and_then_def assets_loop_filter[OF assms(2)])
qed

text \<open>
  C8 fails on the code. The claim has an asset whose policy admits the slide placed on
  it. \<^verbatim>\<open>_add_manifest_assets\<close> leaves every slide as it was, whatever the manifest and the
  index: for the manifest with the one asset \<^verbatim>\<open>a\<close> of policy \<^verbatim>\<open>all\<close>, and for the one with
  the asset \<^verbatim>\<open>b\<close> of policy \<^verbatim>\<open>title_only\<close>, at index 0 the line is printed for the asset and
  the slide is unchanged.
\<close>

theorem assets_never_placed:
  "fst (add_manifest_assets sl manifest i) = sl
   \<and> add_manifest_assets sl (JObj [(str ''assets'', JArr [logo ''a'' ''all''])]) 0
       = (sl, [logo ''a'' ''all''])
   \<and> add_manifest_assets sl (JObj [(str ''assets'', JArr [logo ''b'' ''title_only''])]) 0
       = (sl, [logo ''b'' ''title_only''])
   \<and> add_manifest_assets sl (JObj [(str ''assets'', JArr [logo ''b'' ''title_only''])]) 1
       = (sl, [])"
  by (simp add: add_manifest_assets_def and_then_def should_apply_def logo_def)

end
